theory Spec2Isabelle
  imports Main
begin

section \<open>The hostname-or-ID resolution shim of the vSphere provider\<close>

text \<open>
  A shallow embedding of package \<open>hostsystem\<close>
  (\<open>vsphere/internal/helper/hostsystem/host_system_helper.go\<close>), of the iSCSI software
  adapter import (\<open>vsphere/resource_vsphere_iscsi_software_adapter.go\<close>) and of the
  vCenter DNS resource. Every Go function becomes a HOL function of the same name. The
  vSphere endpoint behind a \<open>govmomi.Client\<close> is a record of response functions (one
  per remote call the code makes): a snapshot of the inventory together with the calls
  that fail. Each modelled function returns, next to its Go result, the list of remote
  calls it issued, in order. Logging (\<open>log.Printf\<close>, \<open>fmt.Printf\<close>) is left out.
\<close>

subsection \<open>Data\<close>

text \<open>\<open>types.ManagedObjectReference\<close>.\<close>

record ManagedObjectReference =
  ref_Type :: string
  ref_Value :: string

text \<open>\<open>object.HostSystem\<close>: what its methods \<open>Reference()\<close> and \<open>Name()\<close> return.\<close>

record HostSystem =
  hs_Reference :: ManagedObjectReference
  hs_Name :: string

text \<open>
  The interface \<open>object.Reference\<close> that \<open>find.Finder.ObjectReference\<close> returns: the
  dynamic type is \<open>*object.HostSystem\<close> or another object type.
\<close>

datatype Reference = HostSystemObject HostSystem | OtherObject ManagedObjectReference

text \<open>\<open>mo.HostSystem\<close>, with the properties the code reads.\<close>

record mo_HostSystem =
  Self :: ManagedObjectReference
  Name :: string
  Runtime_InMaintenanceMode :: bool
  ConfigManager_StorageSystem :: "ManagedObjectReference option"

text \<open>\<open>mo.HostStorageSystem\<close>.\<close>

record mo_HostStorageSystem =
  hss_Self :: ManagedObjectReference
  SoftwareInternetScsiEnabled :: bool

text \<open>The iSCSI host bus adapter that \<open>iscsi.GetIscsiSoftwareAdater\<close> returns.\<close>

record IscsiHba =
  Device :: string
  IScsiName :: string

text \<open>\<open>mo.Task\<close>: the fields \<open>Info.State\<close> and \<open>Info.Error\<close> (as printed by \<open>%s\<close>).\<close>

record mo_Task =
  Info_State :: string
  Info_Error :: string

text \<open>
  Errors. \<open>ErrHostnameNotFound\<close> and \<open>ErrHostnameOrIDNotFound\<close> are the two sentinel
  values of the package (\<open>errors.New\<close>); \<open>Errorf\<close> is an error built by \<open>fmt.Errorf\<close>
  with its message; \<open>External\<close> is an error value made outside the package (by govmomi,
  \<open>viapi\<close> or \<open>iscsi\<close>), of type \<open>fault\<close>. A \<open>fault\<close> is never one of the sentinels:
  those are compared by identity and only this package hands them out.
\<close>

datatype fault = Fault string

datatype error =
    ErrHostnameNotFound
  | ErrHostnameOrIDNotFound
  | Errorf string
  | External fault

text \<open>\<open>err.Error()\<close>.\<close>

fun Error :: "error \<Rightarrow> string" where
  "Error ErrHostnameNotFound = ''could not find host with given hostname''"
| "Error ErrHostnameOrIDNotFound = ''could not find host based off of id or hostname''"
| "Error (Errorf msg) = msg"
| "Error (External (Fault msg)) = msg"

text \<open>
  \<open>errors.Is(err, target)\<close> for a sentinel target: no error of the model wraps another
  (\<open>fmt.Errorf\<close> is always used with \<open>%s\<close>, never \<open>%w\<close>), so it is equality.
\<close>

definition errors_Is :: "error \<Rightarrow> error \<Rightarrow> bool" where
  "errors_Is err target = (err = target)"

text \<open>
  How a Go function ends: it returns, the process exits (\<open>os.Exit\<close>), or it panics
  (a failed type assertion, a nil dereference).
\<close>

datatype 'a outcome = Returns 'a | Exits int | Panics

text \<open>\<open>HostReturn\<close>.\<close>

record HostReturn =
  IDName :: string
  Value :: string

text \<open>The zero value \<open>HostReturn{}\<close>.\<close>

definition HostReturn_zero :: HostReturn where
  "HostReturn_zero = \<lparr>IDName = '''', Value = ''''\<rparr>"

text \<open>
  What \<open>d.Get(key)\<close> of a \<open>schema.ResourceData\<close> yields, an \<open>interface{}\<close>: nil, a
  string, or the list of a \<open>*schema.Set\<close> of strings.
\<close>

datatype tfvalue = TfNil | TfString string | TfSet "string list"

record ResourceData =
  rd_Id :: string
  rd_Get :: "string \<Rightarrow> tfvalue"

text \<open>\<open>d.SetId(v)\<close> and \<open>d.Set(key, v)\<close> for a string attribute of the schema.\<close>

definition SetId :: "string \<Rightarrow> ResourceData \<Rightarrow> ResourceData" where
  "SetId v d = d\<lparr>rd_Id := v\<rparr>"

definition Set_attr :: "string \<Rightarrow> string \<Rightarrow> ResourceData \<Rightarrow> ResourceData" where
  "Set_attr key v d = d\<lparr>rd_Get := (rd_Get d)(key := TfString v)\<rparr>"

text \<open>The JSON body of a REST request (\<open>map[string]interface{}\<close>).\<close>

datatype json = JString string | JList "json list" | JObject "(string \<times> json) list"

subsection \<open>The remote calls\<close>

text \<open>One constructor per remote call the code issues, with the arguments it passes.\<close>

datatype call =
    ObjectReference_call bool ManagedObjectReference
  | DatacenterList_call string
  | CreateContainerView_call ManagedObjectReference "string list" bool
  | RetrieveWithFilter_call ManagedObjectReference "string list" "string list"
  | Properties_call ManagedObjectReference
  | StorageSystemProperties_call ManagedObjectReference
  | EnterMaintenanceMode_call ManagedObjectReference int bool
  | ExitMaintenanceMode_call ManagedObjectReference int
  | TaskWait_call ManagedObjectReference
  | TaskProperties_call ManagedObjectReference
  | RestUpdateRequest_call string string json

text \<open>
  The endpoint behind \<open>*govmomi.Client\<close>. \<open>ObjectReference all ref\<close> is
  \<open>find.NewFinder(client, all).ObjectReference(ctx, ref)\<close>; a datacenter and a container
  view are given by their references; the maintenance-mode calls receive the
  \<open>time.Duration\<close> (in nanoseconds) from which the code computes the seconds it sends.
  Three functions of this repository that are not among the sources are parameters too:
  \<open>viapi.IsManagedObjectNotFoundError\<close>, \<open>viapi.VimValidateVirtualCenter\<close> and
  \<open>iscsi.GetIscsiSoftwareAdater\<close>.
\<close>

record Client =
  ObjectReference :: "bool \<Rightarrow> ManagedObjectReference \<Rightarrow> fault + Reference"
  DatacenterList :: "string \<Rightarrow> fault + ManagedObjectReference list"
  CreateContainerView ::
    "ManagedObjectReference \<Rightarrow> string list \<Rightarrow> bool \<Rightarrow> fault + ManagedObjectReference"
  RetrieveWithFilter ::
    "ManagedObjectReference \<Rightarrow> string list \<Rightarrow> string list \<Rightarrow> fault + mo_HostSystem list"
  HostProperties :: "ManagedObjectReference \<Rightarrow> fault + mo_HostSystem"
  StorageSystemProperties :: "ManagedObjectReference \<Rightarrow> fault + mo_HostStorageSystem"
  HostEnterMaintenanceMode ::
    "ManagedObjectReference \<Rightarrow> int \<Rightarrow> bool \<Rightarrow> fault + ManagedObjectReference"
  HostExitMaintenanceMode :: "ManagedObjectReference \<Rightarrow> int \<Rightarrow> fault + ManagedObjectReference"
  TaskWait :: "ManagedObjectReference \<Rightarrow> fault option"
  TaskProperties :: "ManagedObjectReference \<Rightarrow> fault + mo_Task"
  IsManagedObjectNotFoundError :: "error \<Rightarrow> bool"
  VimValidateVirtualCenter :: "fault option"
  GetIscsiSoftwareAdater :: "mo_HostStorageSystem \<Rightarrow> string \<Rightarrow> fault + IscsiHba"

text \<open>The REST endpoint behind \<open>Client.restClient\<close>: \<open>viapi.RestUpdateRequest\<close>.\<close>

record RestClient =
  RestUpdateRequest :: "string \<Rightarrow> string \<Rightarrow> json \<Rightarrow> fault option"

subsection \<open>Package hostsystem\<close>

text \<open>\<open>FromID\<close> locates a HostSystem by its managed object reference ID.\<close>

definition FromID ::
  "Client \<Rightarrow> string \<Rightarrow> (HostSystem option \<times> error option) outcome \<times> call list" where
  "FromID client hostID =
     (let ref = \<lparr>ref_Type = ''HostSystem'', ref_Value = hostID\<rparr> in
      case ObjectReference client False ref of
        Inl err \<Rightarrow> (Returns (None, Some (External err)), [ObjectReference_call False ref])
      | Inr hs \<Rightarrow>
          (case hs of
             HostSystemObject h \<Rightarrow> (Returns (Some h, None), [ObjectReference_call False ref])
           | OtherObject _ \<Rightarrow> (Panics, [ObjectReference_call False ref])))"

text \<open>
  The inner loop of \<open>FromHostname\<close>, over the hosts of one datacenter, with the variables
  \<open>counter\<close> and \<open>host\<close> it updates. \<open>Inl err\<close> is the early \<open>return nil, err\<close> of the
  function; \<open>Inr (counter, host)\<close> is the end of the loop.
\<close>

fun FromHostname_hosts ::
  "Client \<Rightarrow> string \<Rightarrow> mo_HostSystem list \<Rightarrow> int \<Rightarrow> HostSystem option \<Rightarrow>
     (error + int \<times> HostSystem option) outcome \<times> call list" where
  "FromHostname_hosts client hostname [] counter host = (Returns (Inr (counter, host)), [])"
| "FromHostname_hosts client hostname (h # moHosts) counter host =
     (if Name h = hostname then
        if counter + 1 > 1 then
          (Returns (Inl (Errorf (''more than one host with hostname '' @ [CHR 0x27] @ hostname
             @ [CHR 0x27] @ '' was found''))), [])
        else
          (case ObjectReference client True (Self h) of
             Inl err \<Rightarrow>
               (Returns (Inl (Errorf (''error trying to retrieve host object reference: ''
                  @ Error (External err)))), [ObjectReference_call True (Self h)])
           | Inr ref \<Rightarrow>
               (case ref of
                  HostSystemObject x \<Rightarrow>
                    (case FromHostname_hosts client hostname moHosts (counter + 1) (Some x) of
                       (r, calls) \<Rightarrow> (r, ObjectReference_call True (Self h) # calls))
                | OtherObject _ \<Rightarrow> (Panics, [ObjectReference_call True (Self h)])))
      else FromHostname_hosts client hostname moHosts counter host)"

text \<open>
  The outer loop of \<open>FromHostname\<close>, over the datacenters. A container view that cannot
  be created or read ends the process with \<open>os.Exit(1)\<close>.
\<close>

fun FromHostname_dcs ::
  "Client \<Rightarrow> string \<Rightarrow> ManagedObjectReference list \<Rightarrow> int \<Rightarrow> HostSystem option \<Rightarrow>
     (error + int \<times> HostSystem option) outcome \<times> call list" where
  "FromHostname_dcs client hostname [] counter host = (Returns (Inr (counter, host)), [])"
| "FromHostname_dcs client hostname (dc # dcs) counter host =
     (case CreateContainerView client dc [''HostSystem''] True of
        Inl err \<Rightarrow> (Exits 1, [CreateContainerView_call dc [''HostSystem''] True])
      | Inr dcView \<Rightarrow>
          (case RetrieveWithFilter client dcView [''HostSystem''] [''name''] of
             Inl err \<Rightarrow>
               (Exits 1, [CreateContainerView_call dc [''HostSystem''] True,
                          RetrieveWithFilter_call dcView [''HostSystem''] [''name'']])
           | Inr moHosts \<Rightarrow>
               (case FromHostname_hosts client hostname moHosts counter host of
                  (Returns (Inr (counter', host')), calls) \<Rightarrow>
                    (case FromHostname_dcs client hostname dcs counter' host' of
                       (r, calls') \<Rightarrow>
                         (r, CreateContainerView_call dc [''HostSystem''] True
                             # RetrieveWithFilter_call dcView [''HostSystem''] [''name'']
                             # calls @ calls'))
                | (r, calls) \<Rightarrow>
                    (r, CreateContainerView_call dc [''HostSystem''] True
                        # RetrieveWithFilter_call dcView [''HostSystem''] [''name'']
                        # calls))))"

text \<open>
  \<open>FromHostname\<close> locates a HostSystem by hostname, and returns \<open>ErrHostnameNotFound\<close>
  if no host is found.
\<close>

definition FromHostname ::
  "Client \<Rightarrow> string \<Rightarrow> (HostSystem option \<times> error option) outcome \<times> call list" where
  "FromHostname client hostname =
     (case DatacenterList client ''*'' of
        Inl err \<Rightarrow> (Returns (None, Some (External err)), [DatacenterList_call ''*''])
      | Inr dcs \<Rightarrow>
          (case FromHostname_dcs client hostname dcs 0 None of
             (Returns (Inl err), calls) \<Rightarrow>
               (Returns (None, Some err), DatacenterList_call ''*'' # calls)
           | (Returns (Inr (counter, host)), calls) \<Rightarrow>
               (if host \<noteq> None then (Returns (host, None), DatacenterList_call ''*'' # calls)
                else (Returns (None, Some ErrHostnameNotFound), DatacenterList_call ''*'' # calls))
           | (Exits n, calls) \<Rightarrow> (Exits n, DatacenterList_call ''*'' # calls)
           | (Panics, calls) \<Rightarrow> (Panics, DatacenterList_call ''*'' # calls)))"

text \<open>The value \<open>!= nil && != ""\<close> test of \<open>FromHostnameOrID\<close> on an attribute.\<close>

definition notNilOrEmpty :: "tfvalue \<Rightarrow> bool" where
  "notNilOrEmpty v = (v \<noteq> TfNil \<and> v \<noteq> TfString '''')"

text \<open>
  The last line of \<open>FromHostnameOrID\<close>:
  \<open>return host, HostReturn{IDName: tfIDName, Value: tfVal}, err\<close>.
\<close>

fun withHostReturn ::
  "string \<Rightarrow> string \<Rightarrow> (HostSystem option \<times> error option) outcome \<times> call list \<Rightarrow>
     (HostSystem option \<times> HostReturn \<times> error option) outcome \<times> call list" where
  "withHostReturn tfIDName tfVal (Returns (host, err), calls) =
     (Returns (host, \<lparr>IDName = tfIDName, Value = tfVal\<rparr>, err), calls)"
| "withHostReturn tfIDName tfVal (Exits n, calls) = (Exits n, calls)"
| "withHostReturn tfIDName tfVal (Panics, calls) = (Panics, calls)"

text \<open>
  \<open>FromHostnameOrID\<close> locates a HostSystem by either id or hostname depending on what
  is passed through the ResourceData. The type assertion \<open>d.Get(tfIDName).(string)\<close>
  panics on a value that is not a string.
\<close>

definition FromHostnameOrID ::
  "Client \<Rightarrow> ResourceData \<Rightarrow>
     (HostSystem option \<times> HostReturn \<times> error option) outcome \<times> call list" where
  "FromHostnameOrID client d =
     (if notNilOrEmpty (rd_Get d ''host_system_id'') then
        (case rd_Get d ''host_system_id'' of
           TfString tfVal \<Rightarrow> withHostReturn ''host_system_id'' tfVal (FromID client tfVal)
         | _ \<Rightarrow> (Panics, []))
      else if notNilOrEmpty (rd_Get d ''hostname'') then
        (case rd_Get d ''hostname'' of
           TfString tfVal \<Rightarrow> withHostReturn ''hostname'' tfVal (FromHostname client tfVal)
         | _ \<Rightarrow> (Panics, []))
      else
        (Returns (None, HostReturn_zero,
           Some (Errorf (''no valid tf id attribute passed.  One of the following should be ''
             @ ''passed from resource: '' @ [CHR 0x27] @ ''host_system_id'' @ [CHR 0x27]
             @ '', '' @ [CHR 0x27] @ ''hostname'' @ [CHR 0x27]))), []))"

text \<open>
  \<open>CheckIfHostnameOrID\<close> determines whether an id exists, as the vSphere generated host
  id or as a hostname. \<open>host.Name()\<close> and \<open>host.Reference()\<close> on a nil host panic.
\<close>

definition CheckIfHostnameOrID ::
  "Client \<Rightarrow> string \<Rightarrow>
     (HostSystem option \<times> HostReturn \<times> error option) outcome \<times> call list" where
  "CheckIfHostnameOrID client tfID =
     (case FromID client tfID of
        (Returns (host, Some err), calls) \<Rightarrow>
          (if \<not> IsManagedObjectNotFoundError client err then
             (Returns (None, HostReturn_zero, Some err), calls)
           else
             (case FromHostname client tfID of
                (Returns (host, Some err), calls') \<Rightarrow>
                  (if \<not> errors_Is err ErrHostnameNotFound then
                     (Returns (None, HostReturn_zero, Some err), calls @ calls')
                   else
                     (Returns (None, HostReturn_zero, Some ErrHostnameOrIDNotFound),
                      calls @ calls'))
              | (Returns (Some host, None), calls') \<Rightarrow>
                  (Returns (Some host, \<lparr>IDName = ''hostname'', Value = hs_Name host\<rparr>, None),
                   calls @ calls')
              | (Returns (None, None), calls') \<Rightarrow> (Panics, calls @ calls')
              | (Exits n, calls') \<Rightarrow> (Exits n, calls @ calls')
              | (Panics, calls') \<Rightarrow> (Panics, calls @ calls')))
      | (Returns (Some host, None), calls) \<Rightarrow>
          (Returns (Some host,
             \<lparr>IDName = ''host_system_id'', Value = ref_Value (hs_Reference host)\<rparr>, None),
           calls)
      | (Returns (None, None), calls) \<Rightarrow> (Panics, calls)
      | (Exits n, calls) \<Rightarrow> (Exits n, calls)
      | (Panics, calls) \<Rightarrow> (Panics, calls))"

text \<open>
  \<open>Properties\<close> fetches the HostSystem managed object of a host. The host is a
  non-nil \<open>*object.HostSystem\<close>.
\<close>

definition Properties :: "Client \<Rightarrow> HostSystem \<Rightarrow> (error + mo_HostSystem) \<times> call list" where
  "Properties client host =
     (case HostProperties client (hs_Reference host) of
        Inl err \<Rightarrow> (Inl (External err), [Properties_call (hs_Reference host)])
      | Inr props \<Rightarrow> (Inr props, [Properties_call (hs_Reference host)]))"

text \<open>\<open>HostStorageSystemProperties\<close>, on the reference of the \<open>object.HostStorageSystem\<close>.\<close>

definition HostStorageSystemProperties ::
  "Client \<Rightarrow> ManagedObjectReference \<Rightarrow> (error + mo_HostStorageSystem) \<times> call list" where
  "HostStorageSystemProperties client hss =
     (case StorageSystemProperties client hss of
        Inl err \<Rightarrow> (Inl (External err), [StorageSystemProperties_call hss])
      | Inr props \<Rightarrow> (Inr props, [StorageSystemProperties_call hss]))"

text \<open>
  \<open>GetHostStorageSystemFromHost\<close>. The dereference
  \<open>*hsProps.ConfigManager.StorageSystem\<close> panics on a nil pointer.
\<close>

definition GetHostStorageSystemFromHost ::
  "Client \<Rightarrow> HostSystem \<Rightarrow> (error + ManagedObjectReference) outcome \<times> call list" where
  "GetHostStorageSystemFromHost client host =
     (case Properties client host of
        (Inl err, calls) \<Rightarrow>
          (Returns (Inl (Errorf (''error trying to retrieve host system properties for host ''
             @ [CHR 0x27] @ hs_Name host @ [CHR 0x27] @ '': '' @ Error err))), calls)
      | (Inr hsProps, calls) \<Rightarrow>
          (case ConfigManager_StorageSystem hsProps of
             None \<Rightarrow> (Panics, calls)
           | Some storageSystem \<Rightarrow> (Returns (Inr storageSystem), calls)))"

text \<open>\<open>GetHostStorageSystemPropertiesFromHost\<close>.\<close>

definition GetHostStorageSystemPropertiesFromHost ::
  "Client \<Rightarrow> HostSystem \<Rightarrow> (error + mo_HostStorageSystem) outcome \<times> call list" where
  "GetHostStorageSystemPropertiesFromHost client host =
     (case GetHostStorageSystemFromHost client host of
        (Returns (Inl err), calls) \<Rightarrow> (Returns (Inl err), calls)
      | (Returns (Inr hss), calls) \<Rightarrow>
          (case HostStorageSystemProperties client hss of
             (Inl err, calls') \<Rightarrow>
               (Returns (Inl (Errorf
                  (''error trying to retrieve host storage system properties for host ''
                   @ [CHR 0x27] @ hs_Name host @ [CHR 0x27] @ '': '' @ Error err))),
                calls @ calls')
           | (Inr hssProps, calls') \<Rightarrow> (Returns (Inr hssProps), calls @ calls'))
      | (Exits n, calls) \<Rightarrow> (Exits n, calls)
      | (Panics, calls) \<Rightarrow> (Panics, calls))"

text \<open>\<open>HostInMaintenance\<close> returns true if the host is in maintenance mode.\<close>

definition HostInMaintenance :: "Client \<Rightarrow> HostSystem \<Rightarrow> (bool \<times> error option) \<times> call list" where
  "HostInMaintenance client host =
     (case Properties client host of
        (Inl err, calls) \<Rightarrow> ((False, Some err), calls)
      | (Inr hostObject, calls) \<Rightarrow> ((Runtime_InMaintenanceMode hostObject, None), calls))"

text \<open>\<open>ManagedObjectReference.String()\<close>, as \<open>%s\<close> prints a reference.\<close>

definition ref_String :: "ManagedObjectReference \<Rightarrow> string" where
  "ref_String r = ref_Type r @ '':'' @ ref_Value r"

text \<open>
  \<open>EnterMaintenanceMode\<close> puts a host into maintenance mode. \<open>client\<close> stands for
  \<open>host.Client()\<close>; \<open>timeout\<close> is the \<open>time.Duration\<close>.
\<close>

definition EnterMaintenanceMode ::
  "Client \<Rightarrow> HostSystem \<Rightarrow> int \<Rightarrow> bool \<Rightarrow> error option \<times> call list" where
  "EnterMaintenanceMode client host timeout evacuate =
     (let evacuate' = (if VimValidateVirtualCenter client \<noteq> None then False else evacuate) in
      case HostInMaintenance client host of
        ((maintMode, Some err), calls) \<Rightarrow> (Some err, calls)
      | ((maintMode, None), calls) \<Rightarrow>
          (if maintMode then (None, calls)
           else
             (case HostEnterMaintenanceMode client (hs_Reference host) timeout evacuate' of
                Inl err \<Rightarrow>
                  (Some (External err),
                   calls @ [EnterMaintenanceMode_call (hs_Reference host) timeout evacuate'])
              | Inr task \<Rightarrow>
                  (case TaskWait client task of
                     Some err \<Rightarrow>
                       (Some (External err),
                        calls @ [EnterMaintenanceMode_call (hs_Reference host) timeout evacuate',
                                 TaskWait_call task])
                   | None \<Rightarrow>
                       (case TaskProperties client task of
                          Inl err \<Rightarrow>
                            (Some (External err),
                             calls @ [EnterMaintenanceMode_call (hs_Reference host) timeout evacuate',
                                      TaskWait_call task, TaskProperties_call task])
                        | Inr to \<Rightarrow>
                            (if Info_State to \<noteq> ''success'' then
                               (Some (Errorf (''error while putting host(''
                                  @ ref_String (hs_Reference host)
                                  @ '') in maintenance mode: '' @ Info_Error to)),
                                calls @ [EnterMaintenanceMode_call (hs_Reference host) timeout evacuate',
                                         TaskWait_call task, TaskProperties_call task])
                             else
                               (None,
                                calls @ [EnterMaintenanceMode_call (hs_Reference host) timeout evacuate',
                                         TaskWait_call task, TaskProperties_call task])))))))"

text \<open>\<open>ExitMaintenanceMode\<close> takes a host out of maintenance mode.\<close>

definition ExitMaintenanceMode ::
  "Client \<Rightarrow> HostSystem \<Rightarrow> int \<Rightarrow> error option \<times> call list" where
  "ExitMaintenanceMode client host timeout =
     (case HostInMaintenance client host of
        ((maintMode, Some err), calls) \<Rightarrow> (Some err, calls)
      | ((maintMode, None), calls) \<Rightarrow>
          (if \<not> maintMode then (None, calls)
           else
             (case HostExitMaintenanceMode client (hs_Reference host) timeout of
                Inl err \<Rightarrow>
                  (Some (External err),
                   calls @ [ExitMaintenanceMode_call (hs_Reference host) timeout])
              | Inr task \<Rightarrow>
                  (case TaskWait client task of
                     Some err \<Rightarrow>
                       (Some (External err),
                        calls @ [ExitMaintenanceMode_call (hs_Reference host) timeout,
                                 TaskWait_call task])
                   | None \<Rightarrow>
                       (case TaskProperties client task of
                          Inl err \<Rightarrow>
                            (Some (External err),
                             calls @ [ExitMaintenanceMode_call (hs_Reference host) timeout,
                                      TaskWait_call task, TaskProperties_call task])
                        | Inr to \<Rightarrow>
                            (if Info_State to \<noteq> ''success'' then
                               (Some (Errorf (''error while getting host(''
                                  @ ref_String (hs_Reference host)
                                  @ '') out of maintenance mode: '' @ Info_Error to)),
                                calls @ [ExitMaintenanceMode_call (hs_Reference host) timeout,
                                         TaskWait_call task, TaskProperties_call task])
                             else
                               (None,
                                calls @ [ExitMaintenanceMode_call (hs_Reference host) timeout,
                                         TaskWait_call task, TaskProperties_call task])))))))"

subsection \<open>The iSCSI software adapter import\<close>

text \<open>\<open>strings.Split(s, sep)\<close> for a separator of one character.\<close>

fun strings_Split :: "string \<Rightarrow> char \<Rightarrow> string list" where
  "strings_Split [] sep = [[]]"
| "strings_Split (c # s) sep =
     (if c = sep then [] # strings_Split s sep
      else (case strings_Split s sep of
              [] \<Rightarrow> [[c]]
            | piece # pieces \<Rightarrow> (c # piece) # pieces))"

text \<open>
  \<open>resourceVSphereIscsiSoftwareAdapterImport\<close>. The result is the returned slice (nil
  is the empty list) and the error; the ResourceData in the slice is \<open>d\<close> after
  \<open>d.SetId\<close> and \<open>d.Set\<close>.
\<close>

definition resourceVSphereIscsiSoftwareAdapterImport ::
  "Client \<Rightarrow> ResourceData \<Rightarrow> (ResourceData list \<times> error option) outcome \<times> call list" where
  "resourceVSphereIscsiSoftwareAdapterImport client d =
     (let idSplit = strings_Split (rd_Id d) (CHR '':'') in
      if length idSplit \<noteq> 2 then
        (Returns ([], Some (Errorf (''invalid import format.  Format should be ''
           @ ''<host_system_id | hostname>:<adapter_name>''))), [])
      else
        (case CheckIfHostnameOrID client (idSplit ! 0) of
           (Returns (host, hr, Some err), calls) \<Rightarrow>
             (Returns ([], Some (Errorf (''error retrieving host for iscsi import: ''
                @ Error err))), calls)
         | (Returns (None, hr, None), calls) \<Rightarrow> (Panics, calls)
         | (Returns (Some host, hr, None), calls) \<Rightarrow>
             (case GetHostStorageSystemPropertiesFromHost client host of
                (Returns (Inl err), calls') \<Rightarrow>
                  (Returns ([], Some (Errorf
                     (''error retrieving host system storage properties on import for host ''
                      @ [CHR 0x27] @ hs_Name host @ [CHR 0x27] @ '': '' @ Error err))),
                   calls @ calls')
              | (Returns (Inr hssProps), calls') \<Rightarrow>
                  (case GetIscsiSoftwareAdater client hssProps (hs_Name host) of
                     Inl err \<Rightarrow>
                       (Returns ([], Some (Errorf
                          (''error retrieving iscsi software adapter on import for host ''
                           @ [CHR 0x27] @ hs_Name host @ [CHR 0x27] @ '': ''
                           @ Error (External err)))),
                        calls @ calls')
                   | Inr adapter \<Rightarrow>
                       (Returns
                          ([Set_attr (IDName hr) (Value hr)
                              (SetId (Value hr @ '':'' @ Device adapter) d)], None),
                        calls @ calls'))
              | (Exits n, calls') \<Rightarrow> (Exits n, calls @ calls')
              | (Panics, calls') \<Rightarrow> (Panics, calls @ calls'))
         | (Exits n, calls) \<Rightarrow> (Exits n, calls)
         | (Panics, calls) \<Rightarrow> (Panics, calls)))"

subsection \<open>The vCenter DNS resource\<close>

definition vsphereVcenterDnsID :: string where
  "vsphereVcenterDnsID = ''tf-vcenter-dns''"

definition dnsServersPath :: string where
  "dnsServersPath = ''/appliance/networking/dns/servers''"

text \<open>\<open>http.MethodPut\<close>.\<close>

definition MethodPut :: string where
  "MethodPut = ''PUT''"

text \<open>The two request bodies of \<open>vsphereVcenterDNSUpdate\<close>, in the order of the source.\<close>

definition dnsConfigPayload :: "string list \<Rightarrow> json" where
  "dnsConfigPayload servers =
     JObject [(''config'', JObject [(''mode'', JString ''is_static''),
                                   (''servers'', JList (map JString servers))])]"

definition dnsFlatPayload :: "string list \<Rightarrow> json" where
  "dnsFlatPayload servers =
     JObject [(''mode'', JString ''is_static''), (''servers'', JList (map JString servers))]"

text \<open>
  \<open>vsphereVcenterDNSUpdate\<close>. The type assertion \<open>d.Get("servers").(*schema.Set)\<close>
  panics on a value that is not a set; it is evaluated before the request is sent.
\<close>

definition vsphereVcenterDNSUpdate ::
  "RestClient \<Rightarrow> ResourceData \<Rightarrow> error option outcome \<times> call list" where
  "vsphereVcenterDNSUpdate client d =
     (case rd_Get d ''servers'' of
        TfSet servers \<Rightarrow>
          (case RestUpdateRequest client MethodPut dnsServersPath (dnsConfigPayload servers) of
             None \<Rightarrow>
               (Returns None,
                [RestUpdateRequest_call MethodPut dnsServersPath (dnsConfigPayload servers)])
           | Some err \<Rightarrow>
               (case RestUpdateRequest client MethodPut dnsServersPath (dnsFlatPayload servers) of
                  None \<Rightarrow>
                    (Returns None,
                     [RestUpdateRequest_call MethodPut dnsServersPath (dnsConfigPayload servers),
                      RestUpdateRequest_call MethodPut dnsServersPath (dnsFlatPayload servers)])
                | Some err' \<Rightarrow>
                    (Returns (Some (Errorf
                       (''error making update request for dns server config: ''
                        @ Error (External err')))),
                     [RestUpdateRequest_call MethodPut dnsServersPath (dnsConfigPayload servers),
                      RestUpdateRequest_call MethodPut dnsServersPath (dnsFlatPayload servers)])))
      | _ \<Rightarrow> (Panics, []))"

text \<open>
  \<open>resourceVSphereVcenterDNSCreate\<close> and \<open>resourceVSphereVcenterDNSUpdate\<close>; the
  former returns the ResourceData as it leaves it.
\<close>

definition resourceVSphereVcenterDNSCreate ::
  "RestClient \<Rightarrow> ResourceData \<Rightarrow> (error option \<times> ResourceData) outcome \<times> call list" where
  "resourceVSphereVcenterDNSCreate client d =
     (case vsphereVcenterDNSUpdate client d of
        (Returns (Some err), calls) \<Rightarrow> (Returns (Some err, d), calls)
      | (Returns None, calls) \<Rightarrow> (Returns (None, SetId vsphereVcenterDnsID d), calls)
      | (Exits n, calls) \<Rightarrow> (Exits n, calls)
      | (Panics, calls) \<Rightarrow> (Panics, calls))"

definition resourceVSphereVcenterDNSUpdate ::
  "RestClient \<Rightarrow> ResourceData \<Rightarrow> error option outcome \<times> call list" where
  "resourceVSphereVcenterDNSUpdate client d = vsphereVcenterDNSUpdate client d"

subsection \<open>Notions of the specification\<close>

text \<open>
  The hosts across all datacenters visible to the session: the hosts that the container
  views of the datacenters list, in the order of the datacenters. It is defined when every
  view can be created and read.
\<close>

fun visibleHosts :: "Client \<Rightarrow> ManagedObjectReference list \<Rightarrow> mo_HostSystem list option" where
  "visibleHosts client [] = Some []"
| "visibleHosts client (dc # dcs) =
     (case CreateContainerView client dc [''HostSystem''] True of
        Inl err \<Rightarrow> None
      | Inr dcView \<Rightarrow>
          (case RetrieveWithFilter client dcView [''HostSystem''] [''name''] of
             Inl err \<Rightarrow> None
           | Inr moHosts \<Rightarrow>
               (case visibleHosts client dcs of
                  None \<Rightarrow> None
                | Some others \<Rightarrow> Some (moHosts @ others))))"

text \<open>The visible hosts that have the requested hostname.\<close>

definition named :: "string \<Rightarrow> mo_HostSystem list \<Rightarrow> mo_HostSystem list" where
  "named hostname moHosts = filter (\<lambda>h. Name h = hostname) moHosts"

text \<open>
  What govmomi guarantees of the two calls whose results the code converts or passes on:
  \<open>find.Finder.ObjectReference\<close> on a reference of type \<open>HostSystem\<close> builds the object
  with \<open>object.NewReference\<close>, a \<open>*object.HostSystem\<close> with that very reference; and a
  container view read for the kind \<open>HostSystem\<close> holds host systems only.
\<close>

definition govmomi_contract :: "Client \<Rightarrow> bool" where
  "govmomi_contract client \<longleftrightarrow>
     (\<forall>all ref r. ref_Type ref = ''HostSystem'' \<longrightarrow> ObjectReference client all ref = Inr r \<longrightarrow>
        (\<exists>n. r = HostSystemObject \<lparr>hs_Reference = ref, hs_Name = n\<rparr>))
     \<and> (\<forall>dcView ps moHosts. RetrieveWithFilter client dcView [''HostSystem''] ps = Inr moHosts \<longrightarrow>
          (\<forall>h \<in> set moHosts. ref_Type (Self h) = ''HostSystem''))"

text \<open>The two errors that \<open>FromHostname\<close> builds with \<open>fmt.Errorf\<close>.\<close>

definition ambiguous :: "string \<Rightarrow> error" where
  "ambiguous hostname =
     Errorf (''more than one host with hostname '' @ [CHR 0x27] @ hostname @ [CHR 0x27]
       @ '' was found'')"

definition referenceFailed :: "fault \<Rightarrow> error" where
  "referenceFailed err =
     Errorf (''error trying to retrieve host object reference: '' @ Error (External err))"

subsection \<open>An example inventory\<close>

text \<open>
  Two datacenters. The first holds \<open>esx1\<close> (\<open>host-1\<close>) and \<open>esx2\<close> (\<open>host-2\<close>, in
  maintenance mode), the second another \<open>esx1\<close> (\<open>host-3\<close>). Looking up \<open>host-9\<close> times
  out; any other reference is reported as not found.
\<close>

definition hostRef :: "string \<Rightarrow> ManagedObjectReference" where
  "hostRef v = \<lparr>ref_Type = ''HostSystem'', ref_Value = v\<rparr>"

definition dc1 :: ManagedObjectReference where
  "dc1 = \<lparr>ref_Type = ''Datacenter'', ref_Value = ''datacenter-1''\<rparr>"

definition dc2 :: ManagedObjectReference where
  "dc2 = \<lparr>ref_Type = ''Datacenter'', ref_Value = ''datacenter-2''\<rparr>"

definition view1 :: ManagedObjectReference where
  "view1 = \<lparr>ref_Type = ''ContainerView'', ref_Value = ''session-1''\<rparr>"

definition view2 :: ManagedObjectReference where
  "view2 = \<lparr>ref_Type = ''ContainerView'', ref_Value = ''session-2''\<rparr>"

definition moHost :: "string \<Rightarrow> string \<Rightarrow> bool \<Rightarrow> mo_HostSystem" where
  "moHost v n maint =
     \<lparr>Self = hostRef v, Name = n, Runtime_InMaintenanceMode = maint,
      ConfigManager_StorageSystem =
        Some \<lparr>ref_Type = ''HostStorageSystem'', ref_Value = ''storageSystem-1''\<rparr>\<rparr>"

definition notFound :: fault where
  "notFound = Fault ''ManagedObjectNotFound''"

definition exampleClient :: Client where
  "exampleClient =
     \<lparr>ObjectReference = (\<lambda>all ref.
        if ref = hostRef ''host-1'' then Inr (HostSystemObject \<lparr>hs_Reference = ref, hs_Name = ''esx1''\<rparr>)
        else if ref = hostRef ''host-2'' then Inr (HostSystemObject \<lparr>hs_Reference = ref, hs_Name = ''esx2''\<rparr>)
        else if ref = hostRef ''host-3'' then Inr (HostSystemObject \<lparr>hs_Reference = ref, hs_Name = ''esx1''\<rparr>)
        else if ref = hostRef ''host-9'' then Inl (Fault ''context deadline exceeded'')
        else Inl notFound),
      DatacenterList = (\<lambda>path. Inr [dc1, dc2]),
      CreateContainerView = (\<lambda>dc kind recursive.
        if dc = dc1 then Inr view1 else if dc = dc2 then Inr view2 else Inl notFound),
      RetrieveWithFilter = (\<lambda>dcView kind ps.
        if dcView = view1 then Inr [moHost ''host-1'' ''esx1'' False, moHost ''host-2'' ''esx2'' True]
        else if dcView = view2 then Inr [moHost ''host-3'' ''esx1'' False]
        else Inl notFound),
      HostProperties = (\<lambda>ref.
        if ref = hostRef ''host-1'' then Inr (moHost ''host-1'' ''esx1'' False)
        else if ref = hostRef ''host-2'' then Inr (moHost ''host-2'' ''esx2'' True)
        else if ref = hostRef ''host-3'' then Inr (moHost ''host-3'' ''esx1'' False)
        else Inl notFound),
      StorageSystemProperties = (\<lambda>ref.
        Inr \<lparr>hss_Self = ref, SoftwareInternetScsiEnabled = True\<rparr>),
      HostEnterMaintenanceMode = (\<lambda>ref timeout evacuate.
        Inr \<lparr>ref_Type = ''Task'', ref_Value = ''task-1''\<rparr>),
      HostExitMaintenanceMode = (\<lambda>ref timeout.
        Inr \<lparr>ref_Type = ''Task'', ref_Value = ''task-2''\<rparr>),
      TaskWait = (\<lambda>task. None),
      TaskProperties = (\<lambda>task. Inr \<lparr>Info_State = ''success'', Info_Error = []\<rparr>),
      IsManagedObjectNotFoundError = (\<lambda>err. err = External notFound),
      VimValidateVirtualCenter = None,
      GetIscsiSoftwareAdater = (\<lambda>hssProps hostname.
        Inr \<lparr>Device = ''vmhba64'', IScsiName = ''iqn.1998-01.com.vmware:esx2''\<rparr>)\<rparr>"

text \<open>The same inventory, when the container view of the second datacenter cannot be created.\<close>

definition viewFailsClient :: Client where
  "viewFailsClient =
     exampleClient\<lparr>CreateContainerView := (\<lambda>dc kind recursive.
        if dc = dc1 then Inr view1 else Inl (Fault ''connection reset by peer''))\<rparr>"

text \<open>A vCenter whose DNS endpoint rejects the body nested under \<open>config\<close> and accepts the flat one.\<close>

definition flatOnlyRest :: RestClient where
  "flatOnlyRest =
     \<lparr>RestUpdateRequest = (\<lambda>method path body.
        (case body of
           JObject ((key, v) # others) \<Rightarrow>
             if key = ''config'' then Some (Fault ''400 Bad Request'') else None
         | _ \<Rightarrow> None))\<rparr>"

text \<open>A vCenter whose DNS endpoint refuses every request.\<close>

definition refusingRest :: RestClient where
  "refusingRest = \<lparr>RestUpdateRequest = (\<lambda>method path body. Some (Fault ''503 Service Unavailable''))\<rparr>"

definition dnsData :: ResourceData where
  "dnsData =
     \<lparr>rd_Id = [], rd_Get = (\<lambda>key. if key = ''servers'' then TfSet [''10.0.0.53''] else TfNil)\<rparr>"

text \<open>The ResourceData of an import, with only its ID set.\<close>

definition importData :: "string \<Rightarrow> ResourceData" where
  "importData v = \<lparr>rd_Id = v, rd_Get = (\<lambda>key. TfString [])\<rparr>"

text \<open>A ResourceData with the two identifier attributes of the schema set to strings.\<close>

definition hostData :: "string \<Rightarrow> string \<Rightarrow> ResourceData" where
  "hostData hostID hostname =
     \<lparr>rd_Id = [], rd_Get = (\<lambda>key. if key = ''host_system_id'' then TfString hostID
                                  else if key = ''hostname'' then TfString hostname else TfNil)\<rparr>"

text \<open>The host objects of \<open>host-1\<close> and \<open>host-2\<close>.\<close>

definition esx1 :: HostSystem where
  "esx1 = \<lparr>hs_Reference = hostRef ''host-1'', hs_Name = ''esx1''\<rparr>"

definition esx2 :: HostSystem where
  "esx2 = \<lparr>hs_Reference = hostRef ''host-2'', hs_Name = ''esx2''\<rparr>"

section \<open>Properties\<close>

subsection \<open>The two loops of FromHostname\<close>

text \<open>
  The inner loop depends on the hosts with the requested name only: with a match already
  counted, a further match ends the function; without, the first match is resolved.
\<close>

lemma hosts_counted:
  "1 \<le> c \<Longrightarrow> FromHostname_hosts cl hn hs c host =
     (if named hn hs = [] then (Returns (Inr (c, host)), [])
      else (Returns (Inl (ambiguous hn)), []))"
  by (induction hs) (auto simp: named_def ambiguous_def)

lemma hosts_fresh:
  "FromHostname_hosts cl hn hs 0 host =
     (case named hn hs of
        [] \<Rightarrow> (Returns (Inr (0, host)), [])
      | x # others \<Rightarrow>
          (case ObjectReference cl True (Self x) of
             Inl err \<Rightarrow> (Returns (Inl (referenceFailed err)), [ObjectReference_call True (Self x)])
           | Inr (OtherObject r) \<Rightarrow> (Panics, [ObjectReference_call True (Self x)])
           | Inr (HostSystemObject h) \<Rightarrow>
               (if others = [] then Returns (Inr (1, Some h)) else Returns (Inl (ambiguous hn)),
                [ObjectReference_call True (Self x)])))"
proof (induction hs)
  case Nil
  show ?case by (simp add: named_def)
next
  case (Cons a hs)
  show ?case
  proof (cases "Name a = hn")
    case True
    then show ?thesis
      using hosts_counted [of 1 cl hn hs]
      by (simp add: named_def referenceFailed_def split: sum.splits Reference.splits)
  next
    case False
    then show ?thesis using Cons.IH by (simp add: named_def)
  qed
qed

lemma named_append: "named hn (xs @ ys) = named hn xs @ named hn ys"
  by (simp add: named_def)

lemma dcs_counted:
  "1 \<le> c \<Longrightarrow> visibleHosts cl dcs = Some hs \<Longrightarrow>
     fst (FromHostname_dcs cl hn dcs c host) =
       (if named hn hs = [] then Returns (Inr (c, host)) else Returns (Inl (ambiguous hn)))"
proof (induction dcs arbitrary: hs)
  case Nil
  then show ?case by (simp add: named_def)
next
  case (Cons dc dcs)
  then show ?case
    by (auto simp: hosts_counted named_append case_prod_beta split: sum.splits option.splits)
qed

lemma dcs_fresh:
  "visibleHosts cl dcs = Some hs \<Longrightarrow>
     fst (FromHostname_dcs cl hn dcs 0 host) =
       (case named hn hs of
          [] \<Rightarrow> Returns (Inr (0, host))
        | x # others \<Rightarrow>
            (case ObjectReference cl True (Self x) of
               Inl err \<Rightarrow> Returns (Inl (referenceFailed err))
             | Inr (OtherObject r) \<Rightarrow> Panics
             | Inr (HostSystemObject h) \<Rightarrow>
                 (if others = [] then Returns (Inr (1, Some h)) else Returns (Inl (ambiguous hn)))))"
proof (induction dcs arbitrary: hs)
  case Nil
  then show ?case by (simp add: named_def)
next
  case (Cons dc dcs)
  from Cons.prems obtain dcView moHosts others where
    v: "CreateContainerView cl dc [''HostSystem''] True = Inr dcView"
    and r: "RetrieveWithFilter cl dcView [''HostSystem''] [''name''] = Inr moHosts"
    and o: "visibleHosts cl dcs = Some others" and hs: "hs = moHosts @ others"
    by (auto split: sum.splits option.splits)
  show ?case
  proof (cases "named hn moHosts")
    case Nil
    then show ?thesis
      using Cons.IH [OF o] v r hs
      by (simp add: hosts_fresh named_append case_prod_beta)
  next
    case (Cons x xs)
    then show ?thesis
      using dcs_counted [of 1 cl dcs others hn] o v r hs
      by (auto simp: hosts_fresh named_append case_prod_beta split: sum.splits Reference.splits)
  qed
qed

lemma dcs_completes:
  "fst (FromHostname_dcs cl hn dcs c host) = Returns (Inr r) \<Longrightarrow> \<exists>hs. visibleHosts cl dcs = Some hs"
proof (induction dcs arbitrary: c host)
  case Nil
  then show ?case by simp
next
  case (Cons dc dcs)
  from Cons.prems obtain dcView where
    v: "CreateContainerView cl dc [''HostSystem''] True = Inr dcView"
    by (cases "CreateContainerView cl dc [''HostSystem''] True") auto
  from Cons.prems v obtain moHosts where
    m: "RetrieveWithFilter cl dcView [''HostSystem''] [''name''] = Inr moHosts"
    by (cases "RetrieveWithFilter cl dcView [''HostSystem''] [''name'']") auto
  from Cons.prems v m obtain c' host' where
    "fst (FromHostname_dcs cl hn dcs c' host') = Returns (Inr r)"
    by (auto simp: case_prod_beta split: outcome.splits sum.splits prod.splits)
  from Cons.IH [OF this] v m show ?case by auto
qed

lemma hosts_early:
  "fst (FromHostname_hosts cl hn hs c host) = Returns (Inl e) \<Longrightarrow>
     e = ambiguous hn \<or> (\<exists>f. e = referenceFailed f)"
proof (induction hs arbitrary: c host)
  case Nil
  then show ?case by simp
next
  case (Cons a hs)
  then show ?case
    by (auto simp: ambiguous_def referenceFailed_def case_prod_beta
        split: if_splits sum.splits Reference.splits)
qed

lemma dcs_early:
  "fst (FromHostname_dcs cl hn dcs c host) = Returns (Inl e) \<Longrightarrow>
     e = ambiguous hn \<or> (\<exists>f. e = referenceFailed f)"
proof (induction dcs arbitrary: c host)
  case Nil
  then show ?case by simp
next
  case (Cons dc dcs)
  from Cons.prems obtain dcView where
    v: "CreateContainerView cl dc [''HostSystem''] True = Inr dcView"
    by (cases "CreateContainerView cl dc [''HostSystem''] True") auto
  from Cons.prems v obtain moHosts where
    m: "RetrieveWithFilter cl dcView [''HostSystem''] [''name''] = Inr moHosts"
    by (cases "RetrieveWithFilter cl dcView [''HostSystem''] [''name'']") auto
  from Cons.prems v m have
    "fst (FromHostname_hosts cl hn moHosts c host) = Returns (Inl e)
     \<or> (\<exists>c' host'. fst (FromHostname_dcs cl hn dcs c' host') = Returns (Inl e))"
    by (auto simp: case_prod_beta split: outcome.splits sum.splits prod.splits)
  then show ?case using Cons.IH hosts_early by blast
qed

lemma FromHostname_listed:
  "DatacenterList cl ''*'' = Inr dcs \<Longrightarrow> visibleHosts cl dcs = Some hs \<Longrightarrow>
     fst (FromHostname cl hn) =
       (case named hn hs of
          [] \<Rightarrow> Returns (None, Some ErrHostnameNotFound)
        | x # others \<Rightarrow>
            (case ObjectReference cl True (Self x) of
               Inl err \<Rightarrow> Returns (None, Some (referenceFailed err))
             | Inr (OtherObject r) \<Rightarrow> Panics
             | Inr (HostSystemObject h) \<Rightarrow>
                 (if others = [] then Returns (Some h, None)
                  else Returns (None, Some (ambiguous hn)))))"
proof -
  assume dl: "DatacenterList cl ''*'' = Inr dcs" and vis: "visibleHosts cl dcs = Some hs"
  obtain r calls where run: "FromHostname_dcs cl hn dcs 0 None = (r, calls)"
    by (cases "FromHostname_dcs cl hn dcs 0 None")
  have r: "r = (case named hn hs of
          [] \<Rightarrow> Returns (Inr (0, None))
        | x # others \<Rightarrow>
            (case ObjectReference cl True (Self x) of
               Inl err \<Rightarrow> Returns (Inl (referenceFailed err))
             | Inr (OtherObject r) \<Rightarrow> Panics
             | Inr (HostSystemObject h) \<Rightarrow>
                 (if others = [] then Returns (Inr (1, Some h)) else Returns (Inl (ambiguous hn)))))"
    using dcs_fresh [OF vis, of hn None] run by simp
  show ?thesis
    unfolding FromHostname_def using dl run r
    by (simp split: list.splits sum.splits Reference.splits)
qed

lemma FromHostname_completes:
  assumes "fst (FromHostname cl hn) = Returns (host, err)"
    and "err = None \<or> err = Some ErrHostnameNotFound"
  shows "\<exists>dcs hs. DatacenterList cl ''*'' = Inr dcs \<and> visibleHosts cl dcs = Some hs"
proof -
  from assms obtain dcs where dl: "DatacenterList cl ''*'' = Inr dcs"
    by (cases "DatacenterList cl ''*''") (auto simp: FromHostname_def)
  obtain r calls where run: "FromHostname_dcs cl hn dcs 0 None = (r, calls)"
    by (cases "FromHostname_dcs cl hn dcs 0 None")
  have "\<exists>p. r = Returns (Inr p)"
  proof (cases r)
    case (Returns x)
    show ?thesis
    proof (cases x)
      case (Inl e)
      with Returns run have "fst (FromHostname_dcs cl hn dcs 0 None) = Returns (Inl e)" by simp
      from dcs_early [OF this] have "e \<noteq> ErrHostnameNotFound"
        by (auto simp: ambiguous_def referenceFailed_def)
      with assms dl run Returns Inl show ?thesis by (auto simp: FromHostname_def)
    next
      case (Inr p)
      with Returns show ?thesis by simp
    qed
  next
    case (Exits n)
    with assms dl run show ?thesis by (simp add: FromHostname_def)
  next
    case Panics
    with assms dl run show ?thesis by (simp add: FromHostname_def)
  qed
  then obtain p where "fst (FromHostname_dcs cl hn dcs 0 None) = Returns (Inr p)"
    using run by auto
  from dcs_completes [OF this] dl show ?thesis by blast
qed

lemma FromHostname_calls: "\<exists>calls. snd (FromHostname cl hn) = DatacenterList_call ''*'' # calls"
  by (simp add: FromHostname_def split: sum.splits prod.splits outcome.splits)

lemma FromID_calls:
  "snd (FromID cl v) = [ObjectReference_call False \<lparr>ref_Type = ''HostSystem'', ref_Value = v\<rparr>]"
  by (simp add: FromID_def Let_def split: sum.splits Reference.splits)

lemma visible_types:
  "govmomi_contract cl \<Longrightarrow> visibleHosts cl dcs = Some hs \<Longrightarrow> h \<in> set hs \<Longrightarrow>
     ref_Type (Self h) = ''HostSystem''"
proof (induction dcs arbitrary: hs)
  case Nil
  then show ?case by simp
next
  case (Cons dc dcs)
  from Cons.prems(2) obtain dcView moHosts others where
    r: "RetrieveWithFilter cl dcView [''HostSystem''] [''name''] = Inr moHosts"
    and o: "visibleHosts cl dcs = Some others" and hs: "hs = moHosts @ others"
    by (auto split: sum.splits option.splits)
  from Cons.prems(1) r have "\<forall>h \<in> set moHosts. ref_Type (Self h) = ''HostSystem''"
    unfolding govmomi_contract_def by blast
  with Cons.IH [OF Cons.prems(1) o] Cons.prems(3) hs show ?case by auto
qed

lemma named_set:
  assumes "named hn hs = x # xs"
  shows "x \<in> set hs \<and> Name x = hn"
proof -
  have "x \<in> set (named hn hs)" using assms by simp
  then show ?thesis by (simp add: named_def)
qed

lemma dcs_stops:
  "fst (FromHostname_dcs cl hn dcs c host) = r \<Longrightarrow> \<forall>p. r \<noteq> Returns (Inr p) \<Longrightarrow>
     fst (FromHostname_dcs cl hn (dcs @ later) c host) = r"
proof (induction dcs arbitrary: c host)
  case Nil
  then show ?case by auto
next
  case (Cons dc dcs)
  show ?case
  proof (cases "CreateContainerView cl dc [''HostSystem''] True")
    case (Inl f)
    with Cons.prems show ?thesis by simp
  next
    case v: (Inr dcView)
    show ?thesis
    proof (cases "RetrieveWithFilter cl dcView [''HostSystem''] [''name'']")
      case (Inl f)
      with Cons.prems v show ?thesis by simp
    next
      case m: (Inr moHosts)
      obtain q calls where run: "FromHostname_hosts cl hn moHosts c host = (q, calls)"
        by (cases "FromHostname_hosts cl hn moHosts c host")
      show ?thesis
      proof (cases "\<exists>c' host'. q = Returns (Inr (c', host'))")
        case True
        then obtain c' host' where q: "q = Returns (Inr (c', host'))" by blast
        from Cons.prems(1) v m run q
        have "fst (FromHostname_dcs cl hn dcs c' host') = r"
          by (simp add: case_prod_beta)
        from Cons.IH [OF this Cons.prems(2)] v m run q show ?thesis
          by (simp add: case_prod_beta)
      next
        case False
        with Cons.prems(1) v m run show ?thesis
          by (auto simp: case_prod_beta split: outcome.splits sum.splits)
      qed
    qed
  qed
qed

lemma FromHostname_early:
  "DatacenterList cl ''*'' = Inr dcs \<Longrightarrow> fst (FromHostname_dcs cl hn dcs 0 None) = Returns (Inl e)
     \<Longrightarrow> fst (FromHostname cl hn) = Returns (None, Some e)"
  by (cases "FromHostname_dcs cl hn dcs 0 None") (simp add: FromHostname_def)

subsection \<open>The example inventory\<close>

lemma example_contract: "govmomi_contract exampleClient"
  unfolding govmomi_contract_def
  by (auto simp: exampleClient_def moHost_def hostRef_def split: if_splits)

lemma example_visible:
  "visibleHosts exampleClient [dc1, dc2] =
     Some [moHost ''host-1'' ''esx1'' False, moHost ''host-2'' ''esx2'' True,
           moHost ''host-3'' ''esx1'' False]"
  by (simp add: exampleClient_def dc1_def dc2_def view1_def view2_def)

subsection \<open>Ambiguous hostnames\<close>

text \<open>
  Claim C2. When the datacenters visible to the session list more than one host with the
  requested hostname, \<open>FromHostname\<close> returns an error and no host object: the error
  that more than one host was found or, when the first match cannot be resolved to an
  object, the error of that lookup. The matches are counted over the hosts of all
  datacenters together (the counter is not reset per datacenter), so two hosts of the same
  name in different datacenters are rejected as well. The hosts visible to the session
  are those that the container views of the datacenters list; it is enough that the views
  of the first datacenters, up to the second match, are listed. The endpoint is assumed
  to answer as govmomi does.
\<close>

theorem FromHostname_rejects_ambiguous:
  assumes "govmomi_contract client"
    and "DatacenterList client ''*'' = Inr (dcs @ later)"
    and "visibleHosts client dcs = Some moHosts"
    and "1 < length (named hostname moHosts)"
  shows "\<exists>err. fst (FromHostname client hostname) = Returns (None, Some err)
           \<and> (err = ambiguous hostname \<or> (\<exists>f. err = referenceFailed f))"
proof -
  from assms(4) obtain x y others where n: "named hostname moHosts = x # y # others"
    by (cases "named hostname moHosts"; cases "tl (named hostname moHosts)") auto
  from named_set [OF n] visible_types [OF assms(1) assms(3)]
  have t: "ref_Type (Self x) = ''HostSystem''" by blast
  have "\<exists>err. fst (FromHostname_dcs client hostname dcs 0 None) = Returns (Inl err)
           \<and> (err = ambiguous hostname \<or> (\<exists>f. err = referenceFailed f))"
  proof (cases "ObjectReference client True (Self x)")
    case (Inl f)
    with dcs_fresh [OF assms(3), of hostname None] n show ?thesis by auto
  next
    case (Inr r)
    with assms(1) t obtain nm where "r = HostSystemObject \<lparr>hs_Reference = Self x, hs_Name = nm\<rparr>"
      unfolding govmomi_contract_def by blast
    with Inr dcs_fresh [OF assms(3), of hostname None] n show ?thesis by auto
  qed
  then obtain err where e: "fst (FromHostname_dcs client hostname dcs 0 None) = Returns (Inl err)"
    and k: "err = ambiguous hostname \<or> (\<exists>f. err = referenceFailed f)" by blast
  from dcs_stops [OF e, of later]
  have "fst (FromHostname_dcs client hostname (dcs @ later) 0 None) = Returns (Inl err)" by simp
  from FromHostname_early [OF assms(2) this] k show ?thesis by blast
qed

theorem FromHostname_rejects_ambiguous_witness:
  "govmomi_contract exampleClient
   \<and> DatacenterList exampleClient ''*'' = Inr [dc1, dc2]
   \<and> visibleHosts exampleClient [dc1] = Some [moHost ''host-1'' ''esx1'' False, moHost ''host-2'' ''esx2'' True]
   \<and> visibleHosts exampleClient [dc2] = Some [moHost ''host-3'' ''esx1'' False]
   \<and> fst (FromHostname exampleClient ''esx1'') = Returns (None, Some (ambiguous ''esx1''))"
proof -
  have dl: "DatacenterList exampleClient ''*'' = Inr [dc1, dc2]"
    and dl': "DatacenterList exampleClient ''*'' = Inr ([dc1, dc2] @ [])"
    by (simp_all add: exampleClient_def)
  have n: "1 < length (named ''esx1'' [moHost ''host-1'' ''esx1'' False,
      moHost ''host-2'' ''esx2'' True, moHost ''host-3'' ''esx1'' False])"
    by (simp add: named_def moHost_def)
  have o: "ObjectReference exampleClient True (hostRef ''host-1'') \<noteq> Inl f" for f
    by (simp add: exampleClient_def)
  have v1: "visibleHosts exampleClient [dc1] = Some [moHost ''host-1'' ''esx1'' False, moHost ''host-2'' ''esx2'' True]"
    by (simp add: exampleClient_def dc1_def dc2_def view1_def view2_def)
  have v2: "visibleHosts exampleClient [dc2] = Some [moHost ''host-3'' ''esx1'' False]"
    by (simp add: exampleClient_def dc1_def dc2_def view1_def view2_def)
  have "fst (FromHostname exampleClient ''esx1'') = Returns (None, Some (ambiguous ''esx1''))"
    using FromHostname_rejects_ambiguous [OF example_contract dl' example_visible n]
    by (simp add: FromHostname_def exampleClient_def dc1_def dc2_def view1_def view2_def
        moHost_def hostRef_def ambiguous_def)
  with example_contract dl v1 v2 show ?thesis by simp
qed

subsection \<open>Successful lookups\<close>

lemma FromID_success:
  "fst (FromID cl v) = Returns (Some host, err) \<Longrightarrow>
     err = None \<and> ObjectReference cl False \<lparr>ref_Type = ''HostSystem'', ref_Value = v\<rparr>
       = Inr (HostSystemObject host)"
  by (auto simp: FromID_def Let_def split: sum.splits Reference.splits)

lemma FromHostname_success:
  assumes "fst (FromHostname cl hn) = Returns (Some host, err)"
  shows "err = None \<and> (\<exists>dcs hs h. DatacenterList cl ''*'' = Inr dcs \<and> visibleHosts cl dcs = Some hs
           \<and> named hn hs = [h] \<and> ObjectReference cl True (Self h) = Inr (HostSystemObject host))"
proof -
  have e: "err = None"
    using assms
    by (auto simp: FromHostname_def split: sum.splits prod.splits outcome.splits if_splits)
  with assms FromHostname_completes [of cl hn "Some host" err]
  obtain dcs hs where dl: "DatacenterList cl ''*'' = Inr dcs" and vis: "visibleHosts cl dcs = Some hs"
    by blast
  from FromHostname_listed [OF dl vis, of hn] assms
  have "\<exists>h. named hn hs = [h] \<and> ObjectReference cl True (Self h) = Inr (HostSystemObject host)"
    by (auto split: list.splits sum.splits Reference.splits if_splits)
  with e dl vis show ?thesis by blast
qed

lemma contract_object:
  "govmomi_contract cl \<Longrightarrow> ref_Type ref = ''HostSystem'' \<Longrightarrow>
     ObjectReference cl all ref = Inr (HostSystemObject h) \<Longrightarrow> hs_Reference h = ref"
proof -
  assume c: "govmomi_contract cl" and t: "ref_Type ref = ''HostSystem''"
    and o: "ObjectReference cl all ref = Inr (HostSystemObject h)"
  from c t o obtain n where "HostSystemObject h = HostSystemObject \<lparr>hs_Reference = ref, hs_Name = n\<rparr>"
    unfolding govmomi_contract_def by blast
  then show ?thesis by simp
qed

lemma example_FromID:
  "FromID exampleClient ''host-2'' =
     (Returns (Some \<lparr>hs_Reference = hostRef ''host-2'', hs_Name = ''esx2''\<rparr>, None),
      [ObjectReference_call False (hostRef ''host-2'')])"
  by (simp add: FromID_def Let_def exampleClient_def hostRef_def)

lemma example_FromHostname:
  "fst (FromHostname exampleClient ''esx2'') =
     Returns (Some \<lparr>hs_Reference = hostRef ''host-2'', hs_Name = ''esx2''\<rparr>, None)"
  by (simp add: FromHostname_def exampleClient_def dc1_def dc2_def view1_def view2_def
      moHost_def hostRef_def)

text \<open>
  Claim C5. A lookup resolves the identifier to exactly one host object. When \<open>FromID\<close>
  returns a host, there is no error and the reference of the host is the reference of type
  \<open>HostSystem\<close> whose value is the requested ID. When \<open>FromHostname\<close> returns a host,
  there is no error, the datacenters visible to the session list exactly one host with
  the requested hostname, and the returned object is that host. So neither function
  returns a host that does not match its identifier. The endpoint is assumed to answer as
  govmomi does.
\<close>

theorem resolution_matches_identifier:
  assumes "govmomi_contract client"
  shows "(fst (FromID client hostID) = Returns (Some host, err) \<longrightarrow>
            err = None \<and> hs_Reference host = \<lparr>ref_Type = ''HostSystem'', ref_Value = hostID\<rparr>)
       \<and> (fst (FromHostname client hostname) = Returns (Some host', err') \<longrightarrow>
            err' = None \<and>
            (\<exists>dcs moHosts h. DatacenterList client ''*'' = Inr dcs
               \<and> visibleHosts client dcs = Some moHosts
               \<and> named hostname moHosts = [h] \<and> Name h = hostname
               \<and> hs_Reference host' = Self h))"
proof (rule conjI; rule impI)
  assume a: "fst (FromID client hostID) = Returns (Some host, err)"
  from FromID_success [OF a]
  have e: "err = None" and o: "ObjectReference client False
      \<lparr>ref_Type = ''HostSystem'', ref_Value = hostID\<rparr> = Inr (HostSystemObject host)"
    by simp_all
  from contract_object [OF assms _ o] e
  show "err = None \<and> hs_Reference host = \<lparr>ref_Type = ''HostSystem'', ref_Value = hostID\<rparr>"
    by simp
next
  assume a: "fst (FromHostname client hostname) = Returns (Some host', err')"
  from FromHostname_success [OF a] obtain dcs hs h where
    e: "err' = None" and dl: "DatacenterList client ''*'' = Inr dcs"
    and vis: "visibleHosts client dcs = Some hs" and n: "named hostname hs = [h]"
    and o: "ObjectReference client True (Self h) = Inr (HostSystemObject host')"
    by blast
  from named_set [OF n] have m: "h \<in> set hs" "Name h = hostname" by simp_all
  from visible_types [OF assms vis m(1)] have "ref_Type (Self h) = ''HostSystem''" .
  from contract_object [OF assms this o] have "hs_Reference host' = Self h" .
  with e dl vis n m show "err' = None \<and>
            (\<exists>dcs moHosts h. DatacenterList client ''*'' = Inr dcs
               \<and> visibleHosts client dcs = Some moHosts
               \<and> named hostname moHosts = [h] \<and> Name h = hostname
               \<and> hs_Reference host' = Self h)" by blast
qed

theorem resolution_matches_identifier_witness:
  "govmomi_contract exampleClient
   \<and> fst (FromID exampleClient ''host-2'')
       = Returns (Some \<lparr>hs_Reference = hostRef ''host-2'', hs_Name = ''esx2''\<rparr>, None)
   \<and> fst (FromHostname exampleClient ''esx2'')
       = Returns (Some \<lparr>hs_Reference = hostRef ''host-2'', hs_Name = ''esx2''\<rparr>, None)
   \<and> hs_Reference \<lparr>hs_Reference = hostRef ''host-2'', hs_Name = ''esx2''\<rparr>
       = \<lparr>ref_Type = ''HostSystem'', ref_Value = ''host-2''\<rparr>
   \<and> (\<exists>dcs moHosts h. DatacenterList exampleClient ''*'' = Inr dcs
         \<and> visibleHosts exampleClient dcs = Some moHosts
         \<and> named ''esx2'' moHosts = [h] \<and> Name h = ''esx2''
         \<and> hs_Reference \<lparr>hs_Reference = hostRef ''host-2'', hs_Name = ''esx2''\<rparr> = Self h)"
proof -
  let ?h = "\<lparr>hs_Reference = hostRef ''host-2'', hs_Name = ''esx2''\<rparr>"
  have a: "fst (FromID exampleClient ''host-2'') = Returns (Some ?h, None)"
    using example_FromID by simp
  note t = resolution_matches_identifier [OF example_contract, of "''host-2''" ?h None
      "''esx2''" ?h None]
  from t a example_FromHostname example_contract show ?thesis by blast
qed

subsection \<open>No match and failures of the endpoint\<close>

text \<open>
  \<open>FromHostname\<close> returns the sentinel \<open>ErrHostnameNotFound\<close> exactly when all
  datacenters are listed and no host has the requested hostname.
\<close>

lemma FromHostname_sentinel:
  "(\<exists>host. fst (FromHostname cl hn) = Returns (host, Some ErrHostnameNotFound))
     \<longleftrightarrow> (\<exists>dcs hs. DatacenterList cl ''*'' = Inr dcs \<and> visibleHosts cl dcs = Some hs
            \<and> named hn hs = [])"
proof
  assume "\<exists>host. fst (FromHostname cl hn) = Returns (host, Some ErrHostnameNotFound)"
  then obtain host where a: "fst (FromHostname cl hn) = Returns (host, Some ErrHostnameNotFound)" ..
  from FromHostname_completes [OF a] obtain dcs hs where
    dl: "DatacenterList cl ''*'' = Inr dcs" and vis: "visibleHosts cl dcs = Some hs" by blast
  from FromHostname_listed [OF dl vis, of hn] a have "named hn hs = []"
    by (auto simp: ambiguous_def referenceFailed_def
        split: list.splits sum.splits Reference.splits if_splits)
  with dl vis show "\<exists>dcs hs. DatacenterList cl ''*'' = Inr dcs \<and> visibleHosts cl dcs = Some hs
            \<and> named hn hs = []" by blast
next
  assume "\<exists>dcs hs. DatacenterList cl ''*'' = Inr dcs \<and> visibleHosts cl dcs = Some hs
            \<and> named hn hs = []"
  then obtain dcs hs where dl: "DatacenterList cl ''*'' = Inr dcs"
    and vis: "visibleHosts cl dcs = Some hs" and n: "named hn hs = []" by blast
  from FromHostname_listed [OF dl vis, of hn] n
  show "\<exists>host. fst (FromHostname cl hn) = Returns (host, Some ErrHostnameNotFound)" by simp
qed

text \<open>
  Claim C3. \<open>FromHostname\<close> is to return the sentinel \<open>ErrHostnameNotFound\<close> exactly
  when the search completes without a match, and another error for every failure of the
  endpoint. The code does not do the latter when a container view cannot be created or
  read: with the datacenters listed and the view of the second one refused, the call for
  a hostname that no host has ends the process with \<open>os.Exit(1)\<close> after four remote
  calls, and returns no error at all.
\<close>

theorem FromHostname_exits_when_view_fails:
  "DatacenterList viewFailsClient ''*'' = Inr [dc1, dc2]
   \<and> CreateContainerView viewFailsClient dc2 [''HostSystem''] True
       = Inl (Fault ''connection reset by peer'')
   \<and> FromHostname viewFailsClient ''esx7'' =
       (Exits 1,
        [DatacenterList_call ''*'',
         CreateContainerView_call dc1 [''HostSystem''] True,
         RetrieveWithFilter_call view1 [''HostSystem''] [''name''],
         CreateContainerView_call dc2 [''HostSystem''] True])"
  by (simp add: FromHostname_def viewFailsClient_def exampleClient_def dc1_def dc2_def
      view1_def view2_def moHost_def hostRef_def)

lemma CheckIfHostnameOrID_maps_errors:
  assumes "fst (FromID client tfID) = Returns (host, Some err)"
    and "IsManagedObjectNotFoundError client err"
    and "fst (FromHostname client tfID) = Returns (host', Some err')"
  shows "fst (CheckIfHostnameOrID client tfID) =
           Returns (None, HostReturn_zero,
             Some (if err' = ErrHostnameNotFound then ErrHostnameOrIDNotFound else err'))"
proof -
  obtain c where a: "FromID client tfID = (Returns (host, Some err), c)"
    using assms(1) by (cases "FromID client tfID") simp
  obtain c' where b: "FromHostname client tfID = (Returns (host', Some err'), c')"
    using assms(3) by (cases "FromHostname client tfID") simp
  show ?thesis
    using a b assms(2)
    by (simp add: CheckIfHostnameOrID_def errors_Is_def split: option.splits)
qed

subsection \<open>The order of the two lookups\<close>

lemma withHostReturn_calls: "snd (withHostReturn n v p) = snd p"
  by (cases "(n, v, p)" rule: withHostReturn.cases) auto

lemma withHostReturn_Returns:
  "withHostReturn n v p = (Returns (host, hr, err), calls)
     \<longleftrightarrow> hr = \<lparr>IDName = n, Value = v\<rparr> \<and> p = (Returns (host, err), calls)"
  by (cases "(n, v, p)" rule: withHostReturn.cases) auto

lemma example_not_found:
  "IsManagedObjectNotFoundError exampleClient err \<longleftrightarrow> err = External notFound"
  by (simp add: exampleClient_def)

lemmas example_defs =
  exampleClient_def dc1_def dc2_def view1_def view2_def moHost_def hostRef_def notFound_def
  esx1_def esx2_def

text \<open>
  Claim C1. The remote calls of \<open>CheckIfHostnameOrID\<close> begin with those of \<open>FromID\<close>,
  the one lookup of the reference of type \<open>HostSystem\<close> with the given value: resolution
  by ID is attempted first. The calls that follow are those of \<open>FromHostname\<close> (which
  begin with the list of the datacenters) if \<open>FromID\<close> returned an error that
  \<open>IsManagedObjectNotFoundError\<close> accepts, and there are none otherwise: the hostname
  search is the fallback if and only if the lookup by ID failed as not found. Any other
  error of \<open>FromID\<close> is returned as it is, with the zero HostReturn and no host, after
  that single call.
\<close>

theorem CheckIfHostnameOrID_tries_ID_first:
  "\<exists>others. snd (CheckIfHostnameOrID client tfID) = snd (FromID client tfID) @ others
     \<and> snd (FromID client tfID)
          = [ObjectReference_call False \<lparr>ref_Type = ''HostSystem'', ref_Value = tfID\<rparr>]
     \<and> ((\<exists>host err. fst (FromID client tfID) = Returns (host, Some err)
            \<and> IsManagedObjectNotFoundError client err)
          \<longrightarrow> others = snd (FromHostname client tfID)
              \<and> (\<exists>more. others = DatacenterList_call ''*'' # more))
     \<and> ((\<forall>host err. fst (FromID client tfID) = Returns (host, Some err)
            \<longrightarrow> \<not> IsManagedObjectNotFoundError client err)
          \<longrightarrow> others = [])
     \<and> (\<forall>host err. fst (FromID client tfID) = Returns (host, Some err)
            \<longrightarrow> \<not> IsManagedObjectNotFoundError client err
            \<longrightarrow> CheckIfHostnameOrID client tfID
                  = (Returns (None, HostReturn_zero, Some err), snd (FromID client tfID)))"
proof -
  obtain r calls where id: "FromID client tfID = (r, calls)" by (cases "FromID client tfID")
  obtain r' calls' where hn: "FromHostname client tfID = (r', calls')"
    by (cases "FromHostname client tfID")
  from FromHostname_calls [of client tfID] hn
  have h: "\<exists>more. calls' = DatacenterList_call ''*'' # more"
    by auto
  have c: "calls = [ObjectReference_call False \<lparr>ref_Type = ''HostSystem'', ref_Value = tfID\<rparr>]"
    using FromID_calls [of client tfID] id by simp
  show ?thesis
  proof (cases "\<exists>host err. r = Returns (host, Some err) \<and> IsManagedObjectNotFoundError client err")
    case True
    then have "snd (CheckIfHostnameOrID client tfID) = calls @ calls'"
      using id hn
      by (auto simp: CheckIfHostnameOrID_def split: outcome.splits option.splits)
    with True id hn h c show ?thesis by auto
  next
    case False
    then have "snd (CheckIfHostnameOrID client tfID) = calls @ []"
      using id
      by (auto simp: CheckIfHostnameOrID_def split: outcome.splits option.splits)
    moreover have "CheckIfHostnameOrID client tfID = (Returns (None, HostReturn_zero, Some err), calls)"
      if "r = Returns (host, Some err)" for host err
      using that False id by (simp add: CheckIfHostnameOrID_def split: option.splits)
    ultimately show ?thesis using False id c by auto
  qed
qed

theorem CheckIfHostnameOrID_tries_ID_first_witness:
  "fst (FromID exampleClient ''host-9'')
     = Returns (None, Some (External (Fault ''context deadline exceeded'')))
   \<and> \<not> IsManagedObjectNotFoundError exampleClient (External (Fault ''context deadline exceeded''))
   \<and> CheckIfHostnameOrID exampleClient ''host-9''
     = (Returns (None, HostReturn_zero, Some (External (Fault ''context deadline exceeded''))),
        [ObjectReference_call False \<lparr>ref_Type = ''HostSystem'', ref_Value = ''host-9''\<rparr>])
   \<and> fst (FromID exampleClient ''esx2'') = Returns (None, Some (External notFound))
   \<and> IsManagedObjectNotFoundError exampleClient (External notFound)
   \<and> snd (CheckIfHostnameOrID exampleClient ''esx2'')
     = ObjectReference_call False \<lparr>ref_Type = ''HostSystem'', ref_Value = ''esx2''\<rparr>
       # snd (FromHostname exampleClient ''esx2'')"
proof -
  have a: "fst (FromID exampleClient ''host-9'')
     = Returns (None, Some (External (Fault ''context deadline exceeded'')))"
    by (simp add: FromID_def Let_def exampleClient_def hostRef_def)
  have b: "\<not> IsManagedObjectNotFoundError exampleClient (External (Fault ''context deadline exceeded''))"
    by (simp add: example_not_found notFound_def)
  have c: "fst (FromID exampleClient ''esx2'') = Returns (None, Some (External notFound))"
    by (simp add: FromID_def Let_def exampleClient_def hostRef_def)
  have d: "IsManagedObjectNotFoundError exampleClient (External notFound)"
    by (simp add: example_not_found)
  from CheckIfHostnameOrID_tries_ID_first [of exampleClient "''host-9''"] a b
  have e: "CheckIfHostnameOrID exampleClient ''host-9''
     = (Returns (None, HostReturn_zero, Some (External (Fault ''context deadline exceeded''))),
        [ObjectReference_call False \<lparr>ref_Type = ''HostSystem'', ref_Value = ''host-9''\<rparr>])"
    by auto
  from CheckIfHostnameOrID_tries_ID_first [of exampleClient "''esx2''"] c d
  have f: "snd (CheckIfHostnameOrID exampleClient ''esx2'')
     = ObjectReference_call False \<lparr>ref_Type = ''HostSystem'', ref_Value = ''esx2''\<rparr>
       # snd (FromHostname exampleClient ''esx2'')"
    by auto
  from a b c d e f show ?thesis by blast
qed

subsection \<open>The choice of the attribute\<close>

text \<open>
  Claim C6. \<open>FromHostnameOrID\<close> gives \<open>host_system_id\<close> precedence. When that attribute
  is a non-empty string, the function is \<open>FromID\<close> on it, tagged with the attribute; the
  only remote call is the lookup of that reference, and the result is the same whatever
  the \<open>hostname\<close> attribute holds, so that attribute is not consulted. When both
  attributes are nil or empty, the function returns an error, the zero HostReturn and no
  host, and issues no remote call.
\<close>

theorem FromHostnameOrID_prefers_host_system_id:
  "(\<forall>tfVal. rd_Get d ''host_system_id'' = TfString tfVal \<longrightarrow> tfVal \<noteq> [] \<longrightarrow>
       FromHostnameOrID client d = withHostReturn ''host_system_id'' tfVal (FromID client tfVal)
       \<and> snd (FromHostnameOrID client d)
           = [ObjectReference_call False \<lparr>ref_Type = ''HostSystem'', ref_Value = tfVal\<rparr>]
       \<and> (\<forall>v. FromHostnameOrID client (d\<lparr>rd_Get := (rd_Get d)(''hostname'' := v)\<rparr>)
              = FromHostnameOrID client d))
   \<and> (\<not> notNilOrEmpty (rd_Get d ''host_system_id'') \<longrightarrow> \<not> notNilOrEmpty (rd_Get d ''hostname'') \<longrightarrow>
       (\<exists>msg. FromHostnameOrID client d = (Returns (None, HostReturn_zero, Some (Errorf msg)), [])))"
  by (simp add: FromHostnameOrID_def notNilOrEmpty_def withHostReturn_calls FromID_calls)

theorem FromHostnameOrID_prefers_host_system_id_witness:
  "rd_Get (hostData ''host-2'' ''esx1'') ''host_system_id'' = TfString ''host-2''
   \<and> rd_Get (hostData ''host-2'' ''esx1'') ''hostname'' = TfString ''esx1''
   \<and> FromHostnameOrID exampleClient (hostData ''host-2'' ''esx1'')
     = (Returns (Some \<lparr>hs_Reference = hostRef ''host-2'', hs_Name = ''esx2''\<rparr>,
                 \<lparr>IDName = ''host_system_id'', Value = ''host-2''\<rparr>, None),
        [ObjectReference_call False (hostRef ''host-2'')])
   \<and> \<not> notNilOrEmpty (rd_Get (importData ''esx2:vmhba64'') ''host_system_id'')
   \<and> \<not> notNilOrEmpty (rd_Get (importData ''esx2:vmhba64'') ''hostname'')
   \<and> (\<exists>msg. FromHostnameOrID exampleClient (importData ''esx2:vmhba64'')
         = (Returns (None, HostReturn_zero, Some (Errorf msg)), []))"
proof -
  have a: "rd_Get (hostData ''host-2'' ''esx1'') ''host_system_id'' = TfString ''host-2''"
    and b: "rd_Get (hostData ''host-2'' ''esx1'') ''hostname'' = TfString ''esx1''"
    by (simp_all add: hostData_def)
  have c: "\<not> notNilOrEmpty (rd_Get (importData ''esx2:vmhba64'') ''host_system_id'')"
    and e: "\<not> notNilOrEmpty (rd_Get (importData ''esx2:vmhba64'') ''hostname'')"
    by (simp_all add: importData_def notNilOrEmpty_def)
  from FromHostnameOrID_prefers_host_system_id [of "hostData ''host-2'' ''esx1''" exampleClient] a
  have f: "FromHostnameOrID exampleClient (hostData ''host-2'' ''esx1'')
     = (Returns (Some \<lparr>hs_Reference = hostRef ''host-2'', hs_Name = ''esx2''\<rparr>,
                 \<lparr>IDName = ''host_system_id'', Value = ''host-2''\<rparr>, None),
        [ObjectReference_call False (hostRef ''host-2'')])"
    by (simp add: example_FromID)
  from FromHostnameOrID_prefers_host_system_id [of "importData ''esx2:vmhba64''" exampleClient] c e
  have g: "\<exists>msg. FromHostnameOrID exampleClient (importData ''esx2:vmhba64'')
         = (Returns (None, HostReturn_zero, Some (Errorf msg)), [])"
    by blast
  from a b c e f g show ?thesis by blast
qed

subsection \<open>The HostReturn next to an error\<close>

text \<open>
  Claim C8. Whenever \<open>CheckIfHostnameOrID\<close> returns an error, the HostReturn it returns
  is the zero value (and the host is nil). \<open>FromHostnameOrID\<close>, once it has selected an
  attribute, returns the HostReturn with the name and the value of that attribute
  together with the error of the lookup that failed, for \<open>host_system_id\<close> and for
  \<open>hostname\<close>.
\<close>

theorem HostReturn_on_error:
  "(CheckIfHostnameOrID client tfID = (Returns (host, hr, Some err), calls) \<longrightarrow>
       hr = HostReturn_zero \<and> host = None)
   \<and> (rd_Get d ''host_system_id'' = TfString tfVal \<longrightarrow> tfVal \<noteq> [] \<longrightarrow>
        FromID client tfVal = (Returns (host', Some err'), calls') \<longrightarrow>
        FromHostnameOrID client d
          = (Returns (host', \<lparr>IDName = ''host_system_id'', Value = tfVal\<rparr>, Some err'), calls'))
   \<and> (\<not> notNilOrEmpty (rd_Get d ''host_system_id'') \<longrightarrow>
        rd_Get d ''hostname'' = TfString tfVal \<longrightarrow> tfVal \<noteq> [] \<longrightarrow>
        FromHostname client tfVal = (Returns (host', Some err'), calls') \<longrightarrow>
        FromHostnameOrID client d
          = (Returns (host', \<lparr>IDName = ''hostname'', Value = tfVal\<rparr>, Some err'), calls'))"
proof -
  have "hr = HostReturn_zero \<and> host = None"
    if "CheckIfHostnameOrID client tfID = (Returns (host, hr, Some err), calls)"
    using that
    by (auto simp: CheckIfHostnameOrID_def
        split: prod.splits outcome.splits option.splits if_splits)
  then show ?thesis
    by (simp add: FromHostnameOrID_def notNilOrEmpty_def)
qed
lemma example_CheckIfHostnameOrID_nope:
  "fst (CheckIfHostnameOrID exampleClient ''nope'')
     = Returns (None, HostReturn_zero, Some ErrHostnameOrIDNotFound)"
  by (simp add: CheckIfHostnameOrID_def FromID_def FromHostname_def Let_def errors_Is_def
      example_defs)

theorem HostReturn_on_error_witness:
  "fst (CheckIfHostnameOrID exampleClient ''nope'')
     = Returns (None, HostReturn_zero, Some ErrHostnameOrIDNotFound)
   \<and> fst (FromID exampleClient ''host-9'')
     = Returns (None, Some (External (Fault ''context deadline exceeded'')))
   \<and> fst (FromHostnameOrID exampleClient (hostData ''host-9'' []))
     = Returns (None, \<lparr>IDName = ''host_system_id'', Value = ''host-9''\<rparr>,
                Some (External (Fault ''context deadline exceeded'')))
   \<and> fst (FromHostname exampleClient ''esx1'') = Returns (None, Some (ambiguous ''esx1''))
   \<and> fst (FromHostnameOrID exampleClient (hostData [] ''esx1''))
     = Returns (None, \<lparr>IDName = ''hostname'', Value = ''esx1''\<rparr>, Some (ambiguous ''esx1''))"
proof -
  have a0: "fst (FromID exampleClient ''host-9'')
     = Returns (None, Some (External (Fault ''context deadline exceeded'')))"
    by (simp add: FromID_def Let_def example_defs)
  then have a: "FromID exampleClient ''host-9''
     = (Returns (None, Some (External (Fault ''context deadline exceeded''))),
        snd (FromID exampleClient ''host-9''))"
    by (simp add: prod_eq_iff)
  have b0: "fst (FromHostname exampleClient ''esx1'') = Returns (None, Some (ambiguous ''esx1''))"
    by (simp add: FromHostname_def ambiguous_def example_defs)
  then have b: "FromHostname exampleClient ''esx1''
     = (Returns (None, Some (ambiguous ''esx1'')), snd (FromHostname exampleClient ''esx1''))"
    by (simp add: prod_eq_iff)
  have c: "rd_Get (hostData ''host-9'' []) ''host_system_id'' = TfString ''host-9''"
    "\<not> notNilOrEmpty (rd_Get (hostData [] ''esx1'') ''host_system_id'')"
    "rd_Get (hostData [] ''esx1'') ''hostname'' = TfString ''esx1''"
    by (simp_all add: hostData_def notNilOrEmpty_def)
  from HostReturn_on_error [where client = exampleClient and d = "hostData ''host-9'' []"
      and tfVal = "''host-9''" and host' = None
      and err' = "External (Fault ''context deadline exceeded'')"
      and calls' = "snd (FromID exampleClient ''host-9'')"]
    a c
  have d: "fst (FromHostnameOrID exampleClient (hostData ''host-9'' []))
     = Returns (None, \<lparr>IDName = ''host_system_id'', Value = ''host-9''\<rparr>,
                Some (External (Fault ''context deadline exceeded'')))"
    by simp
  from HostReturn_on_error [where client = exampleClient and d = "hostData [] ''esx1''"
      and tfVal = "''esx1''" and host' = None and err' = "ambiguous ''esx1''"
      and calls' = "snd (FromHostname exampleClient ''esx1'')"]
    b c
  have e: "fst (FromHostnameOrID exampleClient (hostData [] ''esx1''))
     = Returns (None, \<lparr>IDName = ''hostname'', Value = ''esx1''\<rparr>, Some (ambiguous ''esx1''))"
    by simp
  from a0 b0 d e example_CheckIfHostnameOrID_nope show ?thesis by simp
qed

subsection \<open>Maintenance mode\<close>

text \<open>
  Claim C9. \<open>EnterMaintenanceMode\<close> and \<open>ExitMaintenanceMode\<close> are idempotent at the
  API boundary. For a host whose properties report maintenance mode,
  \<open>EnterMaintenanceMode\<close> returns nil and its only remote call is the read of those
  properties: no task is issued. For a host whose properties report that it is not in
  maintenance mode, \<open>ExitMaintenanceMode\<close> does the same.
\<close>

theorem maintenance_mode_idempotent:
  "(HostProperties client (hs_Reference host) = Inr props \<longrightarrow> Runtime_InMaintenanceMode props \<longrightarrow>
      EnterMaintenanceMode client host timeout evacuate = (None, [Properties_call (hs_Reference host)]))
   \<and> (HostProperties client (hs_Reference host) = Inr props \<longrightarrow> \<not> Runtime_InMaintenanceMode props \<longrightarrow>
      ExitMaintenanceMode client host timeout = (None, [Properties_call (hs_Reference host)]))"
  by (simp add: EnterMaintenanceMode_def ExitMaintenanceMode_def HostInMaintenance_def
      Properties_def Let_def)

theorem maintenance_mode_idempotent_witness:
  "HostProperties exampleClient (hs_Reference esx2) = Inr (moHost ''host-2'' ''esx2'' True)
   \<and> Runtime_InMaintenanceMode (moHost ''host-2'' ''esx2'' True)
   \<and> EnterMaintenanceMode exampleClient esx2 300000000000 True
       = (None, [Properties_call (hs_Reference esx2)])
   \<and> HostProperties exampleClient (hs_Reference esx1) = Inr (moHost ''host-1'' ''esx1'' False)
   \<and> ExitMaintenanceMode exampleClient esx1 300000000000
       = (None, [Properties_call (hs_Reference esx1)])"
proof -
  have a: "HostProperties exampleClient (hs_Reference esx2) = Inr (moHost ''host-2'' ''esx2'' True)"
    and b: "Runtime_InMaintenanceMode (moHost ''host-2'' ''esx2'' True)"
    and c: "HostProperties exampleClient (hs_Reference esx1) = Inr (moHost ''host-1'' ''esx1'' False)"
    and d: "\<not> Runtime_InMaintenanceMode (moHost ''host-1'' ''esx1'' False)"
    by (simp_all add: example_defs)
  from maintenance_mode_idempotent [where client = exampleClient and host = esx2
      and props = "moHost ''host-2'' ''esx2'' True" and timeout = 300000000000
      and evacuate = True] a b
  have e: "EnterMaintenanceMode exampleClient esx2 300000000000 True
       = (None, [Properties_call (hs_Reference esx2)])" by blast
  from maintenance_mode_idempotent [where client = exampleClient and host = esx1
      and props = "moHost ''host-1'' ''esx1'' False" and timeout = 300000000000] c d
  have f: "ExitMaintenanceMode exampleClient esx1 300000000000
       = (None, [Properties_call (hs_Reference esx1)])" by blast
  from a b c e f show ?thesis by blast
qed

subsection \<open>The identifier flavor of a resolution\<close>

lemma FromHostnameOrID_success:
  assumes "FromHostnameOrID client d = (Returns (host, hr, None), calls)"
  shows "(IDName hr = ''host_system_id'' \<and> rd_Get d ''host_system_id'' = TfString (Value hr)
            \<and> FromID client (Value hr) = (Returns (host, None), calls))
       \<or> (IDName hr = ''hostname'' \<and> rd_Get d ''hostname'' = TfString (Value hr)
            \<and> FromHostname client (Value hr) = (Returns (host, None), calls))"
  using assms
  by (auto simp: FromHostnameOrID_def withHostReturn_Returns split: if_splits tfvalue.splits)

lemma CheckIfHostnameOrID_success:
  assumes "CheckIfHostnameOrID client tfID = (Returns (host, hr, None), calls)"
  shows "\<exists>h. host = Some h \<and>
           ((IDName hr = ''host_system_id'' \<and> Value hr = ref_Value (hs_Reference h)
               \<and> fst (FromID client tfID) = Returns (Some h, None))
          \<or> (IDName hr = ''hostname'' \<and> Value hr = hs_Name h
               \<and> (\<exists>err. fst (FromID client tfID) = Returns (None, Some err)
                      \<and> IsManagedObjectNotFoundError client err)
               \<and> fst (FromHostname client tfID) = Returns (Some h, None)))"
proof -
  obtain r c where id: "FromID client tfID = (r, c)" by (cases "FromID client tfID")
  obtain r' c' where hn: "FromHostname client tfID = (r', c')" by (cases "FromHostname client tfID")
  have none: "host' = None" if "r = Returns (host', Some err')" for host' err'
    using that id by (auto simp: FromID_def Let_def split: sum.splits Reference.splits)
  show ?thesis
    using assms id hn none
    by (auto simp: CheckIfHostnameOrID_def split: outcome.splits option.splits if_splits)
qed

lemma split_two: "length xs = 2 \<Longrightarrow> xs = [xs ! 0, xs ! 1]"
  by (cases xs; cases "tl xs") auto

lemma Import_success:
  assumes "resourceVSphereIscsiSoftwareAdapterImport client d = (Returns (ds, None), calls)"
  shows "\<exists>tfID adapterName h hr c (adapter :: IscsiHba).
           strings_Split (rd_Id d) (CHR '':'') = [tfID, adapterName]
           \<and> CheckIfHostnameOrID client tfID = (Returns (Some h, hr, None), c)
           \<and> ds = [Set_attr (IDName hr) (Value hr) (SetId (Value hr @ '':'' @ Device adapter) d)]"
proof -
  let ?idSplit = "strings_Split (rd_Id d) (CHR '':'')"
  have len: "length ?idSplit = 2"
    using assms
    by (auto simp: resourceVSphereIscsiSoftwareAdapterImport_def Let_def split: if_splits)
  obtain r c where chk: "CheckIfHostnameOrID client (?idSplit ! 0) = (r, c)"
    by (cases "CheckIfHostnameOrID client (?idSplit ! 0)")
  from assms len chk obtain h hr where r: "r = Returns (Some h, hr, None)"
    by (auto simp: resourceVSphereIscsiSoftwareAdapterImport_def Let_def
        split: outcome.splits option.splits)
  obtain r' c' where st: "GetHostStorageSystemPropertiesFromHost client h = (r', c')"
    by (cases "GetHostStorageSystemPropertiesFromHost client h")
  from assms len chk r st obtain hssProps where r': "r' = Returns (Inr hssProps)"
    by (auto simp: resourceVSphereIscsiSoftwareAdapterImport_def Let_def
        split: outcome.splits sum.splits)
  from assms len chk r st r' obtain adapter where
    ad: "GetIscsiSoftwareAdater client hssProps (hs_Name h) = Inr adapter"
    by (cases "GetIscsiSoftwareAdater client hssProps (hs_Name h)")
      (auto simp: resourceVSphereIscsiSoftwareAdapterImport_def Let_def)
  from assms len chk r st r' ad have
    ds: "ds = [Set_attr (IDName hr) (Value hr) (SetId (Value hr @ '':'' @ Device adapter) d)]"
    by (simp add: resourceVSphereIscsiSoftwareAdapterImport_def Let_def)
  from chk r have chk': "CheckIfHostnameOrID client (?idSplit ! 0) = (Returns (Some h, hr, None), c)"
    by simp
  show ?thesis
    apply (intro exI conjI)
      apply (rule split_two [OF len])
     apply (rule chk')
    apply (rule ds)
    done
qed

lemma read_after_import:
  assumes "IDName hr = ''host_system_id'' \<or> IDName hr = ''hostname''"
    and "Value hr \<noteq> []" and "\<not> notNilOrEmpty (rd_Get d ''host_system_id'')"
  shows "FromHostnameOrID client (Set_attr (IDName hr) (Value hr) (SetId v d)) =
           withHostReturn (IDName hr) (Value hr)
             (if IDName hr = ''host_system_id'' then FromID client (Value hr)
              else FromHostname client (Value hr))"
  using assms
  by (auto simp: FromHostnameOrID_def Set_attr_def SetId_def notNilOrEmpty_def)

lemma example_CheckIfHostnameOrID_id:
  "fst (CheckIfHostnameOrID exampleClient ''host-2'')
     = Returns (Some esx2, \<lparr>IDName = ''host_system_id'', Value = ''host-2''\<rparr>, None)"
  by (simp add: CheckIfHostnameOrID_def FromID_def Let_def example_defs)

lemma example_CheckIfHostnameOrID_hostname:
  "fst (CheckIfHostnameOrID exampleClient ''esx2'')
     = Returns (Some esx2, \<lparr>IDName = ''hostname'', Value = ''esx2''\<rparr>, None)"
  by (simp add: CheckIfHostnameOrID_def FromID_def FromHostname_def Let_def example_defs)

lemma example_Import:
  "fst (resourceVSphereIscsiSoftwareAdapterImport exampleClient (importData ''esx2:vmhba64''))
     = Returns ([Set_attr ''hostname'' ''esx2''
                   (SetId ''esx2:vmhba64'' (importData ''esx2:vmhba64''))], None)"
  by (simp add: resourceVSphereIscsiSoftwareAdapterImport_def importData_def
      CheckIfHostnameOrID_def FromID_def FromHostname_def Let_def
      GetHostStorageSystemPropertiesFromHost_def GetHostStorageSystemFromHost_def
      Properties_def HostStorageSystemProperties_def example_defs)

lemma example_read:
  "fst (FromHostnameOrID exampleClient
          (Set_attr ''hostname'' ''esx2'' (SetId ''esx2:vmhba64'' (importData ''esx2:vmhba64''))))
     = Returns (Some esx2, \<lparr>IDName = ''hostname'', Value = ''esx2''\<rparr>, None)"
  by (simp add: FromHostnameOrID_def notNilOrEmpty_def Set_attr_def SetId_def importData_def
      FromHostname_def example_defs)

text \<open>
  Claim C4. A successful resolution returns, with the host, a HostReturn that records
  the flavor of identifier that produced the host. For \<open>FromHostnameOrID\<close> it names
  \<open>host_system_id\<close> with the value of that attribute when the host comes from
  \<open>FromID\<close>, and \<open>hostname\<close> with the value of that attribute when it comes from
  \<open>FromHostname\<close>. For \<open>CheckIfHostnameOrID\<close> it names \<open>host_system_id\<close> with the
  reference value of the host found by \<open>FromID\<close> (the given ID, for an endpoint that
  answers as govmomi does), and \<open>hostname\<close> with the name of the host found by
  \<open>FromHostname\<close>. A successful import of an iSCSI software adapter splits its ID at
  the colon, resolves the first part with \<open>CheckIfHostnameOrID\<close> and stores the value
  of the HostReturn under the attribute that the HostReturn names; a later
  \<open>FromHostnameOrID\<close> on that data (for a value that is not empty, and data that came
  without \<open>host_system_id\<close>, as the data of an import does) resolves by that very
  attribute and value.
\<close>

theorem resolution_reports_flavor:
  "(FromHostnameOrID client d = (Returns (host, hr, None), calls) \<longrightarrow>
      (IDName hr = ''host_system_id'' \<and> rd_Get d ''host_system_id'' = TfString (Value hr)
         \<and> FromID client (Value hr) = (Returns (host, None), calls))
    \<or> (IDName hr = ''hostname'' \<and> rd_Get d ''hostname'' = TfString (Value hr)
         \<and> FromHostname client (Value hr) = (Returns (host, None), calls)))
   \<and> (CheckIfHostnameOrID client tfID = (Returns (host, hr, None), calls) \<longrightarrow>
        (\<exists>h. host = Some h \<and>
           ((IDName hr = ''host_system_id'' \<and> Value hr = ref_Value (hs_Reference h)
               \<and> fst (FromID client tfID) = Returns (Some h, None)
               \<and> (govmomi_contract client \<longrightarrow> Value hr = tfID))
          \<or> (IDName hr = ''hostname'' \<and> Value hr = hs_Name h
               \<and> fst (FromHostname client tfID) = Returns (Some h, None)))))
   \<and> (resourceVSphereIscsiSoftwareAdapterImport client d = (Returns (ds, None), calls) \<longrightarrow>
        (\<exists>importID adapterName h found c (adapter :: IscsiHba).
           strings_Split (rd_Id d) (CHR '':'') = [importID, adapterName]
           \<and> CheckIfHostnameOrID client importID = (Returns (Some h, found, None), c)
           \<and> ds = [Set_attr (IDName found) (Value found)
                      (SetId (Value found @ '':'' @ Device adapter) d)]
           \<and> rd_Get (hd ds) (IDName found) = TfString (Value found)
           \<and> (Value found \<noteq> [] \<longrightarrow> \<not> notNilOrEmpty (rd_Get d ''host_system_id'') \<longrightarrow>
                FromHostnameOrID client (hd ds) =
                  withHostReturn (IDName found) (Value found)
                    (if IDName found = ''host_system_id'' then FromID client (Value found)
                     else FromHostname client (Value found)))))"
proof (intro conjI impI)
  assume "FromHostnameOrID client d = (Returns (host, hr, None), calls)"
  from FromHostnameOrID_success [OF this]
  show "(IDName hr = ''host_system_id'' \<and> rd_Get d ''host_system_id'' = TfString (Value hr)
         \<and> FromID client (Value hr) = (Returns (host, None), calls))
    \<or> (IDName hr = ''hostname'' \<and> rd_Get d ''hostname'' = TfString (Value hr)
         \<and> FromHostname client (Value hr) = (Returns (host, None), calls))" .
next
  assume a: "CheckIfHostnameOrID client tfID = (Returns (host, hr, None), calls)"
  from CheckIfHostnameOrID_success [OF a] obtain h where h: "host = Some h"
    and f: "(IDName hr = ''host_system_id'' \<and> Value hr = ref_Value (hs_Reference h)
               \<and> fst (FromID client tfID) = Returns (Some h, None))
          \<or> (IDName hr = ''hostname'' \<and> Value hr = hs_Name h
               \<and> fst (FromHostname client tfID) = Returns (Some h, None))"
    by blast
  have "Value hr = tfID"
    if "govmomi_contract client" "Value hr = ref_Value (hs_Reference h)"
      "fst (FromID client tfID) = Returns (Some h, None)"
  proof -
    from FromID_success [OF that(3)] contract_object [OF that(1)]
    have "hs_Reference h = \<lparr>ref_Type = ''HostSystem'', ref_Value = tfID\<rparr>" by fastforce
    with that(2) show ?thesis by simp
  qed
  with h f show "\<exists>h. host = Some h \<and>
           ((IDName hr = ''host_system_id'' \<and> Value hr = ref_Value (hs_Reference h)
               \<and> fst (FromID client tfID) = Returns (Some h, None)
               \<and> (govmomi_contract client \<longrightarrow> Value hr = tfID))
          \<or> (IDName hr = ''hostname'' \<and> Value hr = hs_Name h
               \<and> fst (FromHostname client tfID) = Returns (Some h, None)))" by blast
next
  assume a: "resourceVSphereIscsiSoftwareAdapterImport client d = (Returns (ds, None), calls)"
  from Import_success [OF a] obtain tfID adapterName h hr c and adapter :: IscsiHba where
    s: "strings_Split (rd_Id d) (CHR '':'') = [tfID, adapterName]"
    and k: "CheckIfHostnameOrID client tfID = (Returns (Some h, hr, None), c)"
    and ds: "ds = [Set_attr (IDName hr) (Value hr) (SetId (Value hr @ '':'' @ Device adapter) d)]"
    by blast
  from CheckIfHostnameOrID_success [OF k]
  have n: "IDName hr = ''host_system_id'' \<or> IDName hr = ''hostname''" by blast
  have g: "rd_Get (hd ds) (IDName hr) = TfString (Value hr)"
    using ds by (simp add: Set_attr_def)
  have i: "Value hr \<noteq> [] \<longrightarrow> \<not> notNilOrEmpty (rd_Get d ''host_system_id'') \<longrightarrow>
        FromHostnameOrID client (hd ds) =
                  withHostReturn (IDName hr) (Value hr)
                    (if IDName hr = ''host_system_id'' then FromID client (Value hr)
                     else FromHostname client (Value hr))"
    using read_after_import [OF n] ds by simp
  show "\<exists>importID adapterName h found c (adapter :: IscsiHba).
           strings_Split (rd_Id d) (CHR '':'') = [importID, adapterName]
           \<and> CheckIfHostnameOrID client importID = (Returns (Some h, found, None), c)
           \<and> ds = [Set_attr (IDName found) (Value found)
                      (SetId (Value found @ '':'' @ Device adapter) d)]
           \<and> rd_Get (hd ds) (IDName found) = TfString (Value found)
           \<and> (Value found \<noteq> [] \<longrightarrow> \<not> notNilOrEmpty (rd_Get d ''host_system_id'') \<longrightarrow>
                FromHostnameOrID client (hd ds) =
                  withHostReturn (IDName found) (Value found)
                    (if IDName found = ''host_system_id'' then FromID client (Value found)
                     else FromHostname client (Value found)))"
    apply (intro exI conjI)
        apply (rule s)
       apply (rule k)
      apply (rule ds)
     apply (rule g)
    apply (rule i)
    done
qed

theorem resolution_reports_flavor_witness:
  "fst (FromHostnameOrID exampleClient (hostData ''host-2'' ''esx1''))
     = Returns (Some esx2, \<lparr>IDName = ''host_system_id'', Value = ''host-2''\<rparr>, None)
   \<and> fst (CheckIfHostnameOrID exampleClient ''host-2'')
     = Returns (Some esx2, \<lparr>IDName = ''host_system_id'', Value = ''host-2''\<rparr>, None)
   \<and> fst (CheckIfHostnameOrID exampleClient ''esx2'')
     = Returns (Some esx2, \<lparr>IDName = ''hostname'', Value = ''esx2''\<rparr>, None)
   \<and> fst (resourceVSphereIscsiSoftwareAdapterImport exampleClient (importData ''esx2:vmhba64''))
     = Returns ([Set_attr ''hostname'' ''esx2''
                   (SetId ''esx2:vmhba64'' (importData ''esx2:vmhba64''))], None)
   \<and> rd_Get (Set_attr ''hostname'' ''esx2'' (SetId ''esx2:vmhba64'' (importData ''esx2:vmhba64'')))
         ''hostname'' = TfString ''esx2''
   \<and> fst (FromHostnameOrID exampleClient
          (Set_attr ''hostname'' ''esx2'' (SetId ''esx2:vmhba64'' (importData ''esx2:vmhba64''))))
     = Returns (Some esx2, \<lparr>IDName = ''hostname'', Value = ''esx2''\<rparr>, None)"
proof -
  have a: "fst (FromHostnameOrID exampleClient (hostData ''host-2'' ''esx1''))
     = Returns (Some esx2, \<lparr>IDName = ''host_system_id'', Value = ''host-2''\<rparr>, None)"
    by (simp add: FromHostnameOrID_def notNilOrEmpty_def hostData_def FromID_def Let_def
        example_defs)
  have b: "rd_Get (Set_attr ''hostname'' ''esx2''
      (SetId ''esx2:vmhba64'' (importData ''esx2:vmhba64''))) ''hostname'' = TfString ''esx2''"
    by (simp add: Set_attr_def)
  note t = resolution_reports_flavor [where client = exampleClient
      and d = "hostData ''host-2'' ''esx1''" and host = "Some esx2"
      and hr = "\<lparr>IDName = ''host_system_id'', Value = ''host-2''\<rparr>"
      and calls = "snd (FromHostnameOrID exampleClient (hostData ''host-2'' ''esx1''))"
      and tfID = "''host-2''"]
  from t a b example_CheckIfHostnameOrID_id example_CheckIfHostnameOrID_hostname
    example_Import example_read
  show ?thesis by simp
qed

subsection \<open>The requests of the vCenter DNS resource\<close>

text \<open>
  Claim C7 does not hold as stated: the DNS update does not issue its PUT at most once
  and does not return an error as soon as that request fails. Against an endpoint that
  refuses the body nested under \<open>config\<close> and accepts the flat body, the first PUT
  fails, a second PUT to the same path follows, and the function returns nil.
\<close>

theorem DNS_update_sends_second_request:
  "RestUpdateRequest flatOnlyRest MethodPut dnsServersPath (dnsConfigPayload [''10.0.0.53''])
     = Some (Fault ''400 Bad Request'')
   \<and> vsphereVcenterDNSUpdate flatOnlyRest dnsData =
       (Returns None,
        [RestUpdateRequest_call MethodPut dnsServersPath (dnsConfigPayload [''10.0.0.53'']),
         RestUpdateRequest_call MethodPut dnsServersPath (dnsFlatPayload [''10.0.0.53''])])"
  by (simp add: vsphereVcenterDNSUpdate_def flatOnlyRest_def dnsData_def dnsConfigPayload_def
      dnsFlatPayload_def)

text \<open>
  Claim C7, amended. The vCenter DNS create and update never send the same request
  twice, but they do not stop at the first failed PUT. They issue at most two PUT requests
  to the DNS servers endpoint, one after the other: first the body nested under
  \<open>config\<close> and, only if that request fails, the flat body (a different body) once.
  Update and create return nil if one of the two requests succeeds, and create then sets
  the ID of the resource; both return an error built from the failure of the second
  request if both requests fail, and create then leaves the resource data as it was. No
  further request is sent.
\<close>

theorem DNS_update_at_most_two_requests:
  assumes "rd_Get d ''servers'' = TfSet servers"
  shows "\<exists>err calls. vsphereVcenterDNSUpdate client d = (Returns err, calls)
         \<and> calls =
            (if RestUpdateRequest client MethodPut dnsServersPath (dnsConfigPayload servers) = None
             then [RestUpdateRequest_call MethodPut dnsServersPath (dnsConfigPayload servers)]
             else [RestUpdateRequest_call MethodPut dnsServersPath (dnsConfigPayload servers),
                   RestUpdateRequest_call MethodPut dnsServersPath (dnsFlatPayload servers)])
         \<and> dnsConfigPayload servers \<noteq> dnsFlatPayload servers
         \<and> (err = None \<longleftrightarrow>
              RestUpdateRequest client MethodPut dnsServersPath (dnsConfigPayload servers) = None
              \<or> RestUpdateRequest client MethodPut dnsServersPath (dnsFlatPayload servers) = None)
         \<and> (\<forall>f. err \<noteq> None \<longrightarrow>
              RestUpdateRequest client MethodPut dnsServersPath (dnsFlatPayload servers) = Some f \<longrightarrow>
              err = Some (Errorf (''error making update request for dns server config: ''
                                  @ Error (External f))))
         \<and> resourceVSphereVcenterDNSUpdate client d = (Returns err, calls)
         \<and> resourceVSphereVcenterDNSCreate client d =
              (Returns (err, if err = None then SetId vsphereVcenterDnsID d else d), calls)"
proof -
  have p: "dnsConfigPayload servers \<noteq> dnsFlatPayload servers"
    by (simp add: dnsConfigPayload_def dnsFlatPayload_def)
  show ?thesis
  proof (cases "RestUpdateRequest client MethodPut dnsServersPath (dnsConfigPayload servers)")
    case None
    with assms p show ?thesis
      by (simp add: vsphereVcenterDNSUpdate_def resourceVSphereVcenterDNSCreate_def
          resourceVSphereVcenterDNSUpdate_def)
  next
    case first: (Some e)
    show ?thesis
    proof (cases "RestUpdateRequest client MethodPut dnsServersPath (dnsFlatPayload servers)")
      case None
      with assms p first show ?thesis
        by (simp add: vsphereVcenterDNSUpdate_def resourceVSphereVcenterDNSCreate_def
            resourceVSphereVcenterDNSUpdate_def)
    next
      case (Some f)
      with assms p first show ?thesis
        by (simp add: vsphereVcenterDNSUpdate_def resourceVSphereVcenterDNSCreate_def
            resourceVSphereVcenterDNSUpdate_def)
    qed
  qed
qed

theorem DNS_update_at_most_two_requests_witness:
  "rd_Get dnsData ''servers'' = TfSet [''10.0.0.53'']
   \<and> vsphereVcenterDNSUpdate flatOnlyRest dnsData =
       (Returns None,
        [RestUpdateRequest_call MethodPut dnsServersPath (dnsConfigPayload [''10.0.0.53'']),
         RestUpdateRequest_call MethodPut dnsServersPath (dnsFlatPayload [''10.0.0.53''])])
   \<and> resourceVSphereVcenterDNSCreate flatOnlyRest dnsData =
       (Returns (None, SetId vsphereVcenterDnsID dnsData),
        [RestUpdateRequest_call MethodPut dnsServersPath (dnsConfigPayload [''10.0.0.53'']),
         RestUpdateRequest_call MethodPut dnsServersPath (dnsFlatPayload [''10.0.0.53''])])
   \<and> resourceVSphereVcenterDNSCreate refusingRest dnsData =
       (Returns (Some (Errorf (''error making update request for dns server config: ''
                   @ ''503 Service Unavailable'')), dnsData),
        [RestUpdateRequest_call MethodPut dnsServersPath (dnsConfigPayload [''10.0.0.53'']),
         RestUpdateRequest_call MethodPut dnsServersPath (dnsFlatPayload [''10.0.0.53''])])"
proof -
  have a: "rd_Get dnsData ''servers'' = TfSet [''10.0.0.53'']" by (simp add: dnsData_def)
  have b: "RestUpdateRequest flatOnlyRest MethodPut dnsServersPath (dnsConfigPayload [''10.0.0.53''])
     \<noteq> None"
    and c: "RestUpdateRequest flatOnlyRest MethodPut dnsServersPath (dnsFlatPayload [''10.0.0.53''])
     = None"
    by (simp_all add: flatOnlyRest_def dnsConfigPayload_def dnsFlatPayload_def)
  have e: "RestUpdateRequest refusingRest MethodPut dnsServersPath (dnsConfigPayload [''10.0.0.53''])
     = Some (Fault ''503 Service Unavailable'')"
    and f: "RestUpdateRequest refusingRest MethodPut dnsServersPath (dnsFlatPayload [''10.0.0.53''])
     = Some (Fault ''503 Service Unavailable'')"
    by (simp_all add: refusingRest_def)
  from DNS_update_at_most_two_requests [OF a, of flatOnlyRest] b c
  have g: "vsphereVcenterDNSUpdate flatOnlyRest dnsData =
       (Returns None,
        [RestUpdateRequest_call MethodPut dnsServersPath (dnsConfigPayload [''10.0.0.53'']),
         RestUpdateRequest_call MethodPut dnsServersPath (dnsFlatPayload [''10.0.0.53''])])"
    and h: "resourceVSphereVcenterDNSCreate flatOnlyRest dnsData =
       (Returns (None, SetId vsphereVcenterDnsID dnsData),
        [RestUpdateRequest_call MethodPut dnsServersPath (dnsConfigPayload [''10.0.0.53'']),
         RestUpdateRequest_call MethodPut dnsServersPath (dnsFlatPayload [''10.0.0.53''])])"
    by auto
  from DNS_update_at_most_two_requests [OF a, of refusingRest] e f
  have i: "resourceVSphereVcenterDNSCreate refusingRest dnsData =
       (Returns (Some (Errorf (''error making update request for dns server config: ''
                   @ ''503 Service Unavailable'')), dnsData),
        [RestUpdateRequest_call MethodPut dnsServersPath (dnsConfigPayload [''10.0.0.53'']),
         RestUpdateRequest_call MethodPut dnsServersPath (dnsFlatPayload [''10.0.0.53''])])"
    by auto
  from a g h i show ?thesis by blast
qed

end
